theory Spec2Isabelle
  imports Complex_Main "HOL-Library.AList"
begin

section \<open>SaccharumVision: the model manager (utils/model_manager.py)\<close>

text \<open>
  A shallow embedding of the class \<open>ModelManager\<close>. Tensors are nested lists of reals
  (height, width, channel); the batch dimension of size one that the code adds with
  \<open>expand_dims\<close> and strips with \<open>[0]\<close> or \<open>squeeze\<close> is left out. Floating point
  numbers are real numbers; the one rounding in the model is that of the float32 product
  \<open>confidence * 100\<close> (see \<open>float32\<close>), the other operations are exact. Everything the
  manager calls but does not define (TensorFlow, Keras, NumPy's sort, PIL, the file
  system, the random number generator) is a field of the record \<open>env\<close>; a call that
  raises is the value \<open>None\<close>.
\<close>

subsection \<open>Data\<close>

type_synonym image = "real list list list"

type_synonym keras_model = "image \<Rightarrow> real list option"

text \<open>The value of \<open>json.load\<close>, and what the classes file can be.\<close>

datatype json =
    JNull
  | JBool bool
  | JNum real
  | JStr string
  | JArr "json list"
  | JObj "(string \<times> json) list"

datatype classes_file =
    Missing
  | Unreadable
  | Parsed json

text \<open>
  The objects \<open>self.classes\<close> can hold once \<open>_load_classes\<close> has returned: a list of
  strings, a string (indexed by character) or a dictionary with string keys.
\<close>

datatype labels =
    LabelList "string list"
  | LabelStr string
  | LabelDict "string list"

text \<open>
  The six numbers drawn in one pass of the augmentation loop, each as the variate in
  \<open>[0, 1)\<close> from which \<open>tf.random.uniform\<close> makes its result.
\<close>

record variates =
  u_rotation :: real
  u_flip_lr :: real
  u_flip_ud :: real
  u_brightness :: real
  u_contrast :: real
  u_saturation :: real

record env =
  load_model :: "string \<Rightarrow> keras_model option"
  read_classes :: "string \<Rightarrow> classes_file"
  pil_open_rgb_resize :: "string \<Rightarrow> nat \<times> nat \<Rightarrow> image option"
  tf_read_decode_resize :: "string \<Rightarrow> nat \<times> nat \<Rightarrow> image option"
  resnet50_preprocess_input :: "image \<Rightarrow> image"
  efficientnet_preprocess_input :: "image \<Rightarrow> image"
  mobilenet_v2_preprocess_input :: "image \<Rightarrow> image"
  rot90 :: "image \<Rightarrow> int \<Rightarrow> image"
  flip_left_right :: "image \<Rightarrow> image"
  flip_up_down :: "image \<Rightarrow> image"
  adjust_brightness :: "image \<Rightarrow> real \<Rightarrow> image"
  adjust_contrast :: "image \<Rightarrow> real \<Rightarrow> image"
  adjust_saturation :: "image \<Rightarrow> real \<Rightarrow> image"
  np_argsort :: "real list \<Rightarrow> nat list"
  random_source :: "nat \<Rightarrow> variates"

record manager =
  model_path :: string
  classes_path :: string
  img_size :: "nat \<times> nat"
  model_type :: string
  model :: keras_model
  classes :: labels
  preprocess_fn :: "image \<Rightarrow> image"

subsection \<open>Tensor arithmetic\<close>

definition tensor_map :: "(real \<Rightarrow> real) \<Rightarrow> image \<Rightarrow> image" where
  "tensor_map f x = map (map (map f)) x"

definition entries :: "image \<Rightarrow> real set" where
  "entries x = \<Union> (set ` \<Union> (set ` set x))"

definition clip_by_value :: "image \<Rightarrow> real \<Rightarrow> real \<Rightarrow> image" where
  "clip_by_value x lo hi = tensor_map (\<lambda>v. min (max v lo) hi) x"

subsection \<open>Choosing the preprocessing function\<close>

definition lower_char :: "char \<Rightarrow> char" where
  "lower_char c =
     (let n = (of_char c :: nat) in if 65 \<le> n \<and> n \<le> 90 then char_of (n + 32) else c)"

definition lower :: "string \<Rightarrow> string" where
  "lower s = map lower_char s"

text \<open>Python's \<open>sub in s\<close> on strings.\<close>

fun py_in :: "string \<Rightarrow> string \<Rightarrow> bool" where
  "py_in sub [] = (sub = [])"
| "py_in sub (c # cs) = (take (length sub) (c # cs) = sub \<or> py_in sub cs)"

text \<open>The fallback \<open>lambda x: (x / 127.5) - 1.0\<close>.\<close>

definition fallback_preprocess :: "image \<Rightarrow> image" where
  "fallback_preprocess x = tensor_map (\<lambda>v. (v / 127.5) - 1.0) x"

definition set_preprocess_function :: "env \<Rightarrow> string \<Rightarrow> image \<Rightarrow> image" where
  "set_preprocess_function E mtype =
     (if py_in ''resnet'' (lower mtype) then resnet50_preprocess_input E
      else if py_in ''efficientnet'' (lower mtype) then efficientnet_preprocess_input E
      else if py_in ''mobilenet'' (lower mtype) then mobilenet_v2_preprocess_input E
      else fallback_preprocess)"

subsection \<open>Loading the model and the classes\<close>

definition default_classes :: "string list" where
  "default_classes = [''Healthy'', ''Mosaic'', ''RedRot'', ''Rust'', ''Yellow'']"

fun is_JStr :: "json \<Rightarrow> bool" where
  "is_JStr (JStr s) = True"
| "is_JStr j = False"

fun str_of :: "json \<Rightarrow> string" where
  "str_of (JStr s) = s"
| "str_of j = []"

text \<open>
  \<open>', '.join(self.classes)\<close> on the loaded object: \<open>None\<close> when it raises TypeError (the
  object is not iterable, or an item is not a string), else the object, which stays in
  \<open>self.classes\<close>. A dictionary keeps each key once, in the order of first occurrence.
\<close>

fun joined :: "json \<Rightarrow> labels option" where
  "joined (JArr xs) = (if list_all is_JStr xs then Some (LabelList (map str_of xs)) else None)"
| "joined (JStr s) = Some (LabelStr s)"
| "joined (JObj kvs) = Some (LabelDict (rev (remdups (rev (map fst kvs)))))"
| "joined j = None"

text \<open>
  \<open>_load_classes\<close>: the file is absent (\<open>Missing\<close>), or \<open>open\<close> or \<open>json.load\<close> raises
  (\<open>Unreadable\<close>), or the log line with \<open>join\<close> raises; the handler sets the default list.
\<close>

definition load_classes :: "env \<Rightarrow> string \<Rightarrow> labels" where
  "load_classes E cpath =
     (case read_classes E cpath of
        Missing \<Rightarrow> LabelList default_classes
      | Unreadable \<Rightarrow> LabelList default_classes
      | Parsed j \<Rightarrow>
          (case joined j of
             None \<Rightarrow> LabelList default_classes
           | Some ls \<Rightarrow> ls))"

text \<open>\<open>__init__\<close>: \<open>None\<close> is the exception that \<open>_load_model\<close> raises again.\<close>

definition init :: "env \<Rightarrow> string \<Rightarrow> string \<Rightarrow> nat \<times> nat \<Rightarrow> string \<Rightarrow> manager option" where
  "init E mpath cpath isize mtype =
     (case load_model E mpath of
        None \<Rightarrow> None
      | Some m \<Rightarrow>
          Some \<lparr>model_path = mpath, classes_path = cpath, img_size = isize,
                model_type = mtype, model = m, classes = load_classes E cpath,
                preprocess_fn = set_preprocess_function E mtype\<rparr>)"

text \<open>\<open>len(self.classes)\<close> and \<open>self.classes[i]\<close> for an index \<open>i \<ge> 0\<close> (\<open>None\<close>: IndexError
  on a list or a string, KeyError on a dictionary, whose keys are strings).\<close>

fun num_labels :: "labels \<Rightarrow> nat" where
  "num_labels (LabelList ls) = length ls"
| "num_labels (LabelStr s) = length s"
| "num_labels (LabelDict ks) = length ks"

fun label_at :: "labels \<Rightarrow> nat \<Rightarrow> string option" where
  "label_at (LabelList ls) i = (if i < length ls then Some (ls ! i) else None)"
| "label_at (LabelStr s) i = (if i < length s then Some [s ! i] else None)"
| "label_at (LabelDict ks) i = None"

subsection \<open>Preprocessing of images\<close>

definition preprocess_image :: "env \<Rightarrow> manager \<Rightarrow> string \<Rightarrow> image option" where
  "preprocess_image E M image_path =
     map_option (tensor_map (\<lambda>v. v / 255.0)) (pil_open_rgb_resize E image_path (img_size M))"

definition load_and_preprocess_image_tf :: "env \<Rightarrow> manager \<Rightarrow> string \<Rightarrow> image option" where
  "load_and_preprocess_image_tf E M image_path =
     map_option (preprocess_fn M) (tf_read_decode_resize E image_path (img_size M))"

subsection \<open>NumPy and dictionaries\<close>

text \<open>\<open>np.argmax\<close>: the first index of the maximum; ValueError on an empty vector.\<close>

definition argmax :: "real list \<Rightarrow> nat option" where
  "argmax xs = List.find (\<lambda>i. xs ! i = Max (set xs)) [0..<length xs]"

text \<open>\<open>np.argsort\<close> with its default kind is not a stable sort: it returns the indices in
  ascending order of value and promises no order among equal values. It is the field
  \<open>np_argsort\<close> of \<open>env\<close>, and this is what NumPy promises of its result.\<close>

definition is_argsort :: "real list \<Rightarrow> nat list \<Rightarrow> bool" where
  "is_argsort xs idxs \<longleftrightarrow>
     length idxs = length xs \<and> distinct idxs \<and> set idxs = {0..<length xs}
     \<and> sorted (map (\<lambda>i. xs ! i) idxs)"

text \<open>A float32 number times 100, as NumPy computes it: the float32 number nearest to the
  product, a tie going to the even significand. The significand has 24 bits; the range
  of the exponent is taken as unbounded.\<close>

definition round_half_even :: "real \<Rightarrow> int" where
  "round_half_even y =
     (let f = \<lfloor>y\<rfloor>; d = y - of_int f
      in if d < 1 / 2 then f
         else if 1 / 2 < d then f + 1
         else if even f then f else f + 1)"

definition float32 :: "real \<Rightarrow> real" where
  "float32 x =
     (if x = 0 then 0
      else (let ulp = 2 powi (\<lfloor>log 2 \<bar>x\<bar>\<rfloor> - 23)
            in ulp * of_int (round_half_even (x / ulp))))"

text \<open>\<open>np.mean(vs, axis=0)\<close> on a list of vectors of one length.\<close>

definition mean_axis0 :: "real list list \<Rightarrow> real list option" where
  "mean_axis0 vs =
     (case vs of
        [] \<Rightarrow> None
      | v # rest \<Rightarrow>
          if list_all (\<lambda>w. length w = length v) rest
          then Some (map (\<lambda>j. sum_list (map (\<lambda>w. w ! j) vs) / real (length vs)) [0..<length v])
          else None)"

text \<open>A dictionary is the list of its items in insertion order: a key set again keeps its
  place and takes the new value.\<close>

definition dict_of :: "('k \<times> 'v) list \<Rightarrow> ('k \<times> 'v) list" where
  "dict_of items = foldl (\<lambda>d (k, v). AList.update k v d) [] items"

text \<open>\<open>sorted(items, key=lambda x: x[1], reverse=True)\<close>, which keeps equal items in order.\<close>

definition sorted_desc :: "(string \<times> real) list \<Rightarrow> (string \<times> real) list" where
  "sorted_desc items = sort_key (\<lambda>x. - snd x) items"

text \<open>The dictionary \<open>probabilities\<close> that the three prediction functions build the same way.\<close>

definition probabilities_of :: "labels \<Rightarrow> real list \<Rightarrow> (string \<times> real) list option" where
  "probabilities_of cls predictions =
     map_option (\<lambda>items. dict_of (sorted_desc (dict_of items)))
       (those (map (\<lambda>i. case label_at cls i of
                          None \<Rightarrow> None
                        | Some c \<Rightarrow> if i < length predictions then Some (c, predictions ! i) else None)
                   [0..<num_labels cls]))"

subsection \<open>Basic prediction\<close>

record basic_prediction =
  b_class :: string
  b_confidence :: real
  b_probabilities :: "(string \<times> real) list"

text \<open>\<open>predict\<close>: \<open>None\<close> is the exception it logs and raises again.\<close>

definition predict :: "env \<Rightarrow> manager \<Rightarrow> string \<Rightarrow> basic_prediction option" where
  "predict E M image_path =
     (case preprocess_image E M image_path of
        None \<Rightarrow> None
      | Some img_array \<Rightarrow>
     (case model M img_array of
        None \<Rightarrow> None
      | Some predictions \<Rightarrow>
     (case argmax predictions of
        None \<Rightarrow> None
      | Some predicted_class_idx \<Rightarrow>
     (case label_at (classes M) predicted_class_idx of
        None \<Rightarrow> None
      | Some predicted_class \<Rightarrow>
     (case probabilities_of (classes M) predictions of
        None \<Rightarrow> None
      | Some probabilities \<Rightarrow>
          Some \<lparr>b_class = predicted_class,
                b_confidence = predictions ! predicted_class_idx,
                b_probabilities = probabilities\<rparr>)))))"

subsection \<open>Prediction with TensorFlow preprocessing\<close>

record top_entry =
  t_class :: string
  t_confidence :: real
  t_probability :: real

text \<open>\<open>get_top_3_predictions\<close>: \<open>None\<close> is the value None it returns on any failure.\<close>

definition get_top_3_predictions :: "env \<Rightarrow> manager \<Rightarrow> string \<Rightarrow> top_entry list option" where
  "get_top_3_predictions E M image_path =
     (case load_and_preprocess_image_tf E M image_path of
        None \<Rightarrow> None
      | Some img \<Rightarrow>
     (case model M img of
        None \<Rightarrow> None
      | Some predictions \<Rightarrow>
          (let top_3_idx = rev (drop (length (np_argsort E predictions) - 3)
                                     (np_argsort E predictions))
           in those (map (\<lambda>idx. case label_at (classes M) idx of
                                   None \<Rightarrow> None
                                 | Some c \<Rightarrow>
                                     Some \<lparr>t_class = c,
                                           t_confidence = float32 (predictions ! idx * 100),
                                           t_probability = predictions ! idx\<rparr>)
                         top_3_idx))))"

record prediction =
  p_class :: string
  p_confidence :: real
  p_probability :: real
  p_probabilities :: "(string \<times> real) list"
  p_num_augmentations :: "int option"

definition predict_single_direct :: "env \<Rightarrow> manager \<Rightarrow> string \<Rightarrow> prediction option" where
  "predict_single_direct E M image_path =
     (case load_and_preprocess_image_tf E M image_path of
        None \<Rightarrow> None
      | Some img \<Rightarrow>
     (case model M img of
        None \<Rightarrow> None
      | Some predictions \<Rightarrow>
     (case argmax predictions of
        None \<Rightarrow> None
      | Some class_idx \<Rightarrow>
     (case probabilities_of (classes M) predictions of
        None \<Rightarrow> None
      | Some probabilities \<Rightarrow>
     (case label_at (classes M) class_idx of
        None \<Rightarrow> None
      | Some c \<Rightarrow>
          (let confidence = predictions ! class_idx
           in Some \<lparr>p_class = c,
                    p_confidence = float32 (confidence * 100),
                    p_probability = confidence,
                    p_probabilities = probabilities,
                    p_num_augmentations = None\<rparr>))))))"

subsection \<open>Test time augmentation\<close>

text \<open>\<open>tf.random.uniform([], minval, maxval)\<close> from a variate \<open>u\<close> in \<open>[0, 1)\<close>, for floats
  and for \<open>dtype=tf.int32\<close>.\<close>

definition uniform_real :: "real \<Rightarrow> real \<Rightarrow> real \<Rightarrow> real" where
  "uniform_real u minval maxval = minval + u * (maxval - minval)"

definition uniform_int :: "real \<Rightarrow> int \<Rightarrow> int \<Rightarrow> int" where
  "uniform_int u minval maxval = minval + \<lfloor>u * real_of_int (maxval - minval)\<rfloor>"

text \<open>The body of the loop of \<open>predict_with_tta\<close>, up to \<open>clip_by_value\<close>.\<close>

definition augment :: "env \<Rightarrow> variates \<Rightarrow> image \<Rightarrow> image" where
  "augment E u img_original =
     (let rotation = uniform_int (u_rotation u) 0 4;
          img = rot90 E img_original rotation;
          img = (if uniform_real (u_flip_lr u) 0 1 > 0.4 then flip_left_right E img else img);
          img = (if uniform_real (u_flip_ud u) 0 1 > 0.7 then flip_up_down E img else img);
          img = adjust_brightness E img (uniform_real (u_brightness u) (-0.2) 0.2);
          img = adjust_contrast E img (uniform_real (u_contrast u) 0.7 1.4);
          img = adjust_saturation E img (uniform_real (u_saturation u) 0.5 1.8)
      in clip_by_value img 0 255)"

text \<open>The tensors that \<open>predict_with_tta\<close> gives to \<open>self.model.predict\<close>, in order: the loaded
  image, then one per pass of \<open>for i in range(num_augmentations)\<close>.\<close>

definition tta_model_inputs :: "env \<Rightarrow> image \<Rightarrow> int \<Rightarrow> image list" where
  "tta_model_inputs E img_original num_augmentations =
     img_original #
     map (\<lambda>i. augment E (random_source E i) img_original) [0..<nat num_augmentations]"

definition predict_with_tta :: "env \<Rightarrow> manager \<Rightarrow> string \<Rightarrow> int \<Rightarrow> prediction option" where
  "predict_with_tta E M image_path num_augmentations =
     (case load_and_preprocess_image_tf E M image_path of
        None \<Rightarrow> None
      | Some img_original \<Rightarrow>
     (case those (map (model M) (tta_model_inputs E img_original num_augmentations)) of
        None \<Rightarrow> None
      | Some predictions_list \<Rightarrow>
     (case mean_axis0 predictions_list of
        None \<Rightarrow> None
      | Some avg_pred \<Rightarrow>
     (case argmax avg_pred of
        None \<Rightarrow> None
      | Some class_idx \<Rightarrow>
     (case probabilities_of (classes M) avg_pred of
        None \<Rightarrow> None
      | Some probabilities \<Rightarrow>
     (case label_at (classes M) class_idx of
        None \<Rightarrow> None
      | Some c \<Rightarrow>
          (let confidence = avg_pred ! class_idx
           in Some \<lparr>p_class = c,
                    p_confidence = float32 (confidence * 100),
                    p_probability = confidence,
                    p_probabilities = probabilities,
                    p_num_augmentations = Some num_augmentations\<rparr>)))))))"

subsection \<open>Improved prediction\<close>

text \<open>The argument \<open>threshold\<close> is a number, or an object of another type (given by the name
  of its type), on which \<open>probability < threshold\<close> raises TypeError.\<close>

datatype threshold = Num real | NonNumeric string

datatype py_exception = TypeError_less_than string

datatype method_text = TTA_text int | Direct_text

text \<open>The four messages, with the values their format strings take.\<close>

datatype message =
    Prediction_error
  | Processing_error py_exception
  | Low_confidence real real
  | Detected string real

text \<open>The returned dictionary: a key it may lack is an option, and \<open>Some None\<close> is the key
  \<open>top_3\<close> holding None.\<close>

record improved_result =
  status :: string
  r_message :: message
  r_confidence :: real
  r_probability :: real
  r_class :: "string option"
  r_probabilities :: "(string \<times> real) list option"
  r_method :: "method_text option"
  r_top_3 :: "top_entry list option option"

definition error_result :: "message \<Rightarrow> improved_result" where
  "error_result msg =
     \<lparr>status = ''error'', r_message = msg, r_confidence = 0, r_probability = 0,
      r_class = None, r_probabilities = None, r_method = None, r_top_3 = None\<rparr>"

definition improved_predict ::
  "env \<Rightarrow> manager \<Rightarrow> string \<Rightarrow> bool \<Rightarrow> threshold \<Rightarrow> int \<Rightarrow> improved_result" where
  "improved_predict E M image_path use_tta thr num_augmentations =
     (let method = (if use_tta then TTA_text num_augmentations else Direct_text);
          result = (if use_tta then predict_with_tta E M image_path num_augmentations
                    else predict_single_direct E M image_path)
      in case result of
           None \<Rightarrow> error_result Prediction_error
         | Some res \<Rightarrow>
             (let probability = p_probability res;
                  top_3 = get_top_3_predictions E M image_path
              in case thr of
                   NonNumeric ty \<Rightarrow> error_result (Processing_error (TypeError_less_than ty))
                 | Num t \<Rightarrow>
                     if probability < t then
                       \<lparr>status = ''warning'',
                        r_message = Low_confidence (p_confidence res) (t * 100),
                        r_confidence = p_confidence res,
                        r_probability = probability,
                        r_class = Some (p_class res),
                        r_probabilities = Some (p_probabilities res),
                        r_method = Some method,
                        r_top_3 = Some top_3\<rparr>
                     else
                       \<lparr>status = ''success'',
                        r_message = Detected (p_class res) (p_confidence res),
                        r_confidence = p_confidence res,
                        r_probability = probability,
                        r_class = Some (p_class res),
                        r_probabilities = Some (p_probabilities res),
                        r_method = Some method,
                        r_top_3 = Some top_3\<rparr>))"

subsection \<open>A reference runtime\<close>

text \<open>
  One value of \<open>env\<close>, used to run the manager on concrete inputs: the TensorFlow image
  operations and the Keras \<open>preprocess_input\<close> functions as their documentation gives
  them for float tensors, over a table of decoded images (already of the requested size),
  with one of the sorts that NumPy's promise allows.
\<close>

definition tf_rot90 :: "image \<Rightarrow> int \<Rightarrow> image" where
  "tf_rot90 x k =
     (let r = k mod 4
      in if r = 1 then transpose (map rev x)
         else if r = 2 then rev (map rev x)
         else if r = 3 then map rev (transpose x)
         else x)"

definition tf_flip_left_right :: "image \<Rightarrow> image" where
  "tf_flip_left_right x = map rev x"

definition tf_flip_up_down :: "image \<Rightarrow> image" where
  "tf_flip_up_down x = rev x"

definition tf_adjust_brightness :: "image \<Rightarrow> real \<Rightarrow> image" where
  "tf_adjust_brightness x delta = tensor_map (\<lambda>v. v + delta) x"

definition channel_mean :: "image \<Rightarrow> nat \<Rightarrow> real" where
  "channel_mean x c = sum_list (map (\<lambda>p. p ! c) (concat x)) / real (length (concat x))"

definition tf_adjust_contrast :: "image \<Rightarrow> real \<Rightarrow> image" where
  "tf_adjust_contrast x factor =
     map (map (\<lambda>p. map (\<lambda>c. (p ! c - channel_mean x c) * factor + channel_mean x c)
                        [0..<length p])) x"

definition rgb_to_hsv :: "real \<times> real \<times> real \<Rightarrow> real \<times> real \<times> real" where
  "rgb_to_hsv rgb =
     (case rgb of (r, g, b) \<Rightarrow>
        (let v = max r (max g b);
             range = v - min r (min g b);
             s = (if v > 0 then range / v else 0);
             h = (if range \<le> 0 then 0
                  else if r = v then (g - b) / (6 * range)
                  else if g = v then (b - r) / (6 * range) + 2 / 6
                  else (r - g) / (6 * range) + 4 / 6)
         in (if h < 0 then h + 1 else h, s, v)))"

definition hsv_to_rgb :: "real \<times> real \<times> real \<Rightarrow> real \<times> real \<times> real" where
  "hsv_to_rgb hsv =
     (case hsv of (h, s, v) \<Rightarrow>
        (let c = s * v;
             m = v - c;
             dh = h * 6;
             k = \<lfloor>dh\<rfloor>;
             x = c * (1 - \<bar>(dh - 2 * real_of_int \<lfloor>dh / 2\<rfloor>) - 1\<bar>)
         in if k = 0 then (c + m, x + m, m)
            else if k = 1 then (x + m, c + m, m)
            else if k = 2 then (m, c + m, x + m)
            else if k = 3 then (m, x + m, c + m)
            else if k = 4 then (x + m, m, c + m)
            else (c + m, m, x + m)))"

definition tf_adjust_saturation :: "image \<Rightarrow> real \<Rightarrow> image" where
  "tf_adjust_saturation x factor =
     map (map (\<lambda>p. case p of
                     [r, g, b] \<Rightarrow>
                       (case rgb_to_hsv (r, g, b) of (h, s, v) \<Rightarrow>
                          (case hsv_to_rgb (h, min 1 (max 0 (s * factor)), v) of
                             (r', g', b') \<Rightarrow> [r', g', b']))
                   | _ \<Rightarrow> p)) x"

definition keras_resnet50_preprocess_input :: "image \<Rightarrow> image" where
  "keras_resnet50_preprocess_input x =
     map (map (\<lambda>p. case p of
                     [r, g, b] \<Rightarrow> [b - 103.939, g - 116.779, r - 123.68]
                   | _ \<Rightarrow> p)) x"

definition keras_efficientnet_preprocess_input :: "image \<Rightarrow> image" where
  "keras_efficientnet_preprocess_input x = x"

definition keras_mobilenet_v2_preprocess_input :: "image \<Rightarrow> image" where
  "keras_mobilenet_v2_preprocess_input x = tensor_map (\<lambda>v. v / 127.5 - 1) x"

text \<open>One sort that meets \<open>is_argsort\<close>: an insertion sort on the pairs of value and
  index.\<close>

definition insertion_argsort :: "real list \<Rightarrow> nat list" where
  "insertion_argsort xs = map snd (sort_key fst (zip xs [0..<length xs]))"

definition runtime ::
  "(string \<Rightarrow> image option) \<Rightarrow> (string \<Rightarrow> keras_model option) \<Rightarrow> (string \<Rightarrow> classes_file) \<Rightarrow>
   (nat \<Rightarrow> variates) \<Rightarrow> env" where
  "runtime images models class_files rng =
     \<lparr>load_model = models,
      read_classes = class_files,
      pil_open_rgb_resize = (\<lambda>path isize. images path),
      tf_read_decode_resize = (\<lambda>path isize. images path),
      resnet50_preprocess_input = keras_resnet50_preprocess_input,
      efficientnet_preprocess_input = keras_efficientnet_preprocess_input,
      mobilenet_v2_preprocess_input = keras_mobilenet_v2_preprocess_input,
      rot90 = tf_rot90,
      flip_left_right = tf_flip_left_right,
      flip_up_down = tf_flip_up_down,
      adjust_brightness = tf_adjust_brightness,
      adjust_contrast = tf_adjust_contrast,
      adjust_saturation = tf_adjust_saturation,
      np_argsort = insertion_argsort,
      random_source = rng\<rparr>"

subsection \<open>A small world to run the manager in\<close>

text \<open>One stored image of a single black pixel, a classes file with two labels, one that
  holds a JSON object and one that holds a JSON string, and four models: one of two
  outputs that reads the red channel of a one-pixel tensor and raises on any other shape,
  one of five outputs with equal values among them, one of six outputs, and one whose
  outputs are the float32 numbers nearest to 2/3 and 1/3.\<close>

definition black_leaf :: "string \<Rightarrow> image option" where
  "black_leaf path = (if path = ''leaf.jpg'' then Some [[[0, 0, 0]]] else None)"

definition red_reader :: keras_model where
  "red_reader x = (case x of [[[r, g, b]]] \<Rightarrow> Some [(1 - r) / 2, (1 + r) / 2] | _ \<Rightarrow> None)"

definition tied_model :: keras_model where
  "tied_model x = Some [1 / 2, 1 / 2, 0, 0, 0]"

definition thirds_model :: keras_model where
  "thirds_model x = Some [11184811 / 16777216, 5592405 / 16777216]"

definition six_model :: keras_model where
  "six_model x = Some [1 / 2, 1 / 10, 1 / 10, 1 / 10, 0, 1 / 5]"

definition steady :: "nat \<Rightarrow> variates" where
  "steady i = \<lparr>u_rotation = 0, u_flip_lr = 1 / 2, u_flip_ud = 1 / 2, u_brightness = 1 / 2,
               u_contrast = 3 / 7, u_saturation = 5 / 13\<rparr>"

definition small_world :: env where
  "small_world =
     runtime black_leaf
       (\<lambda>path. if path = ''net.keras'' then Some red_reader
               else if path = ''tied.keras'' then Some tied_model
               else if path = ''six.keras'' then Some six_model
               else if path = ''thirds.keras'' then Some thirds_model
               else None)
       (\<lambda>path. if path = ''classes.json'' then Parsed (JArr [JStr ''Healthy'', JStr ''Rust''])
               else if path = ''object.json''
                 then Parsed (JObj [(''0'', JStr ''Healthy''), (''1'', JStr ''Rust'')])
               else if path = ''string.json'' then Parsed (JStr ''HR'')
               else Missing)
       steady"

text \<open>The managers that \<open>init\<close> builds in this world (lemma \<open>init_small_world\<close>).\<close>

definition small_manager :: manager where
  "small_manager =
     \<lparr>model_path = ''net.keras'', classes_path = ''classes.json'', img_size = (1, 1),
      model_type = ''VGG16'', model = red_reader,
      classes = LabelList [''Healthy'', ''Rust''],
      preprocess_fn = fallback_preprocess\<rparr>"

definition tied_manager :: manager where
  "tied_manager =
     \<lparr>model_path = ''tied.keras'', classes_path = ''absent.json'', img_size = (1, 1),
      model_type = ''VGG16'', model = tied_model,
      classes = LabelList [''Healthy'', ''Mosaic'', ''RedRot'', ''Rust'', ''Yellow''],
      preprocess_fn = fallback_preprocess\<rparr>"

definition six_manager :: manager where
  "six_manager =
     \<lparr>model_path = ''six.keras'', classes_path = ''absent.json'', img_size = (1, 1),
      model_type = ''VGG16'', model = six_model,
      classes = LabelList [''Healthy'', ''Mosaic'', ''RedRot'', ''Rust'', ''Yellow''],
      preprocess_fn = fallback_preprocess\<rparr>"

text \<open>Another sort that meets \<open>is_argsort\<close> on the output of \<open>tied_model\<close>, with the equal
  values in another order, and the small world with it.\<close>

definition other_argsort :: "real list \<Rightarrow> nat list" where
  "other_argsort xs =
     (if xs = [1 / 2, 1 / 2, 0, 0, 0] then [3, 2, 4, 1, 0] else insertion_argsort xs)"

definition other_world :: env where
  "other_world = small_world\<lparr>np_argsort := other_argsort\<rparr>"

definition thirds_manager :: manager where
  "thirds_manager =
     \<lparr>model_path = ''thirds.keras'', classes_path = ''classes.json'', img_size = (1, 1),
      model_type = ''VGG16'', model = thirds_model,
      classes = LabelList [''Healthy'', ''Rust''],
      preprocess_fn = fallback_preprocess\<rparr>"

definition object_manager :: manager where
  "object_manager =
     \<lparr>model_path = ''net.keras'', classes_path = ''object.json'', img_size = (1, 1),
      model_type = ''VGG16'', model = red_reader,
      classes = LabelDict [''0'', ''1''],
      preprocess_fn = fallback_preprocess\<rparr>"

section \<open>Properties\<close>

subsection \<open>Tensors\<close>

lemma entries_tensor_map: "entries (tensor_map f x) = f ` entries x"
  by (auto simp: entries_def tensor_map_def)

lemma entries_clip_by_value:
  assumes "lo \<le> hi" and "v \<in> entries (clip_by_value x lo hi)"
  shows "lo \<le> v \<and> v \<le> hi"
  using assms by (auto simp: clip_by_value_def entries_tensor_map)

subsection \<open>Preprocessing selection\<close>

lemma fallback_range: "(\<lambda>v::real. (v / 127.5) - 1.0) ` {0..255} = {-1..1}"
proof (rule set_eqI, rule iffI)
  fix y :: real
  assume "y \<in> (\<lambda>v. (v / 127.5) - 1.0) ` {0..255}"
  then obtain v where "0 \<le> v" "v \<le> 255" "y = v / 127.5 - 1.0"
    by auto
  then show "y \<in> {-1..1}"
    by simp
next
  fix y :: real
  assume "y \<in> {-1..1}"
  then have "(y + 1) * 127.5 \<in> {0..255}" and "y = ((y + 1) * 127.5) / 127.5 - 1.0"
    by (simp_all add: field_simps)
  then show "y \<in> (\<lambda>v. (v / 127.5) - 1.0) ` {0..255}"
    by (rule_tac x = "(y + 1) * 127.5" in image_eqI)
qed

text \<open>
  C9. A model type whose lower-case form contains none of \<open>resnet\<close>, \<open>efficientnet\<close>,
  \<open>mobilenet\<close> selects the fallback \<open>x / 127.5 - 1.0\<close>; the selection is a total function
  of the string, and the fallback sends the entries of a tensor in \<open>[0, 255]\<close> onto
  \<open>[-1, 1]\<close>.
\<close>

theorem unknown_family_fallback:
  assumes "\<not> py_in ''resnet'' (lower mtype)"
    and "\<not> py_in ''efficientnet'' (lower mtype)"
    and "\<not> py_in ''mobilenet'' (lower mtype)"
  shows "set_preprocess_function E mtype = fallback_preprocess
    \<and> (\<forall>x. entries (fallback_preprocess x) = (\<lambda>v. v / 127.5 - 1.0) ` entries x)
    \<and> (\<lambda>v::real. v / 127.5 - 1.0) ` {0..255} = {-1..1}"
  using assms fallback_range
  by (simp add: set_preprocess_function_def fallback_preprocess_def entries_tensor_map)

theorem unknown_family_fallback_witness:
  "\<not> py_in ''resnet'' (lower ''VGG16'')
   \<and> \<not> py_in ''efficientnet'' (lower ''VGG16'')
   \<and> \<not> py_in ''mobilenet'' (lower ''VGG16'')
   \<and> set_preprocess_function small_world ''VGG16'' [[[0, 51, 255]]] = [[[-1, - 3 / 5, 1]]]"
proof -
  have a: "\<not> py_in ''resnet'' (lower ''VGG16'')"
    by (simp add: lower_def lower_char_def)
  have b: "\<not> py_in ''efficientnet'' (lower ''VGG16'')"
    by (simp add: lower_def lower_char_def)
  have c: "\<not> py_in ''mobilenet'' (lower ''VGG16'')"
    by (simp add: lower_def lower_char_def)
  have "set_preprocess_function small_world ''VGG16'' = fallback_preprocess"
    using unknown_family_fallback [OF a b c] by simp
  then show ?thesis
    using a b c by (simp add: fallback_preprocess_def tensor_map_def)
qed

subsection \<open>Loading the classes\<close>

lemma vgg16_is_unknown:
  "\<not> py_in ''resnet'' (lower ''VGG16'')"
  "\<not> py_in ''efficientnet'' (lower ''VGG16'')"
  "\<not> py_in ''mobilenet'' (lower ''VGG16'')"
  by (simp_all add: lower_def lower_char_def)

lemma init_small_world:
  "init small_world ''net.keras'' ''classes.json'' (1, 1) ''VGG16'' = Some small_manager"
  "init small_world ''tied.keras'' ''absent.json'' (1, 1) ''VGG16'' = Some tied_manager"
  "init small_world ''six.keras'' ''absent.json'' (1, 1) ''VGG16'' = Some six_manager"
  "init small_world ''thirds.keras'' ''classes.json'' (1, 1) ''VGG16'' = Some thirds_manager"
  "init small_world ''net.keras'' ''object.json'' (1, 1) ''VGG16'' = Some object_manager"
  by (simp_all add: init_def small_world_def runtime_def small_manager_def tied_manager_def
      six_manager_def thirds_manager_def object_manager_def load_classes_def
      default_classes_def set_preprocess_function_def vgg16_is_unknown)

text \<open>
  C8, as the code has it. \<open>_load_classes\<close> leaves exactly the five default labels in
  \<open>self.classes\<close> when the classes file is missing, when it cannot be opened or parsed,
  and when it holds null, a boolean, a number or a list with an item that is not a
  string, on which the log line's \<open>join\<close> raises. A list of strings is taken as it is,
  and so are a JSON string and a JSON object, which are kept in \<open>self.classes\<close> with no
  fallback. In every case the constructor fails only when the model cannot be loaded.
\<close>

theorem load_classes_cases:
  "(read_classes E cpath = Missing \<or> read_classes E cpath = Unreadable
      \<or> read_classes E cpath = Parsed JNull
      \<or> read_classes E cpath = Parsed (JBool b)
      \<or> read_classes E cpath = Parsed (JNum n)
      \<or> (read_classes E cpath = Parsed (JArr xs) \<and> \<not> list_all is_JStr xs)
    \<longrightarrow> load_classes E cpath =
          LabelList [''Healthy'', ''Mosaic'', ''RedRot'', ''Rust'', ''Yellow''])
   \<and> (read_classes E cpath = Parsed (JArr xs) \<and> list_all is_JStr xs
    \<longrightarrow> load_classes E cpath = LabelList (map str_of xs))
   \<and> (read_classes E cpath = Parsed (JStr s) \<longrightarrow> load_classes E cpath = LabelStr s)
   \<and> (read_classes E cpath = Parsed (JObj kvs)
    \<longrightarrow> load_classes E cpath = LabelDict (rev (remdups (rev (map fst kvs)))))
   \<and> (init E mpath cpath isize mtype = None \<longleftrightarrow> load_model E mpath = None)
   \<and> (\<forall>M. init E mpath cpath isize mtype = Some M \<longrightarrow> classes M = load_classes E cpath)"
  by (auto simp: load_classes_def init_def default_classes_def split: option.splits)

theorem load_classes_cases_witness:
  "read_classes small_world ''absent.json'' = Missing
   \<and> load_classes small_world ''absent.json'' =
       LabelList [''Healthy'', ''Mosaic'', ''RedRot'', ''Rust'', ''Yellow'']
   \<and> map_option classes (init small_world ''net.keras'' ''absent.json'' (1, 1) ''VGG16'') =
       Some (LabelList [''Healthy'', ''Mosaic'', ''RedRot'', ''Rust'', ''Yellow''])
   \<and> load_classes (small_world\<lparr>read_classes := \<lambda>p. Parsed (JArr [JStr ''Rust'', JNum 3])\<rparr>)
         ''labels.json'' =
       LabelList [''Healthy'', ''Mosaic'', ''RedRot'', ''Rust'', ''Yellow'']
   \<and> load_classes small_world ''classes.json'' = LabelList [''Healthy'', ''Rust'']
   \<and> load_classes small_world ''string.json'' = LabelStr ''HR''
   \<and> load_classes small_world ''object.json'' = LabelDict [''0'', ''1'']"
proof -
  let ?E = "small_world\<lparr>read_classes := \<lambda>p. Parsed (JArr [JStr ''Rust'', JNum 3])\<rparr>"
  have files: "read_classes small_world ''absent.json'' = Missing"
    "read_classes small_world ''classes.json'' = Parsed (JArr [JStr ''Healthy'', JStr ''Rust''])"
    "read_classes small_world ''string.json'' = Parsed (JStr ''HR'')"
    "read_classes small_world ''object.json''
       = Parsed (JObj [(''0'', JStr ''Healthy''), (''1'', JStr ''Rust'')])"
    "read_classes ?E ''labels.json'' = Parsed (JArr [JStr ''Rust'', JNum 3])"
    by (simp_all add: small_world_def runtime_def)
  have m: "load_model small_world ''net.keras'' = Some red_reader"
    by (simp add: small_world_def runtime_def)
  from load_classes_cases [where E = small_world and cpath = "''absent.json''"
      and mpath = "''net.keras''" and isize = "(1, 1)" and mtype = "''VGG16''"] files(1) m
  have a: "load_classes small_world ''absent.json'' =
       LabelList [''Healthy'', ''Mosaic'', ''RedRot'', ''Rust'', ''Yellow'']"
    and b: "map_option classes (init small_world ''net.keras'' ''absent.json'' (1, 1) ''VGG16'') =
       Some (LabelList [''Healthy'', ''Mosaic'', ''RedRot'', ''Rust'', ''Yellow''])"
    by auto
  from load_classes_cases [where E = ?E and cpath = "''labels.json''"
      and xs = "[JStr ''Rust'', JNum 3]"] files(5)
  have c: "load_classes ?E ''labels.json'' =
       LabelList [''Healthy'', ''Mosaic'', ''RedRot'', ''Rust'', ''Yellow'']"
    by simp
  from load_classes_cases [where E = small_world and cpath = "''classes.json''"
      and xs = "[JStr ''Healthy'', JStr ''Rust'']"] files(2)
  have d: "load_classes small_world ''classes.json'' = LabelList [''Healthy'', ''Rust'']"
    by simp
  from load_classes_cases [where E = small_world and cpath = "''string.json''" and s = "''HR''"]
    files(3)
  have e: "load_classes small_world ''string.json'' = LabelStr ''HR''"
    by simp
  from load_classes_cases [where E = small_world and cpath = "''object.json''"
      and kvs = "[(''0'', JStr ''Healthy''), (''1'', JStr ''Rust'')]"] files(4)
  have f: "load_classes small_world ''object.json'' = LabelDict [''0'', ''1'']"
    by simp
  from files(1) a b c d e f show ?thesis by blast
qed

text \<open>The claim C8 as stated fails: a classes file that holds a JSON object, or a JSON
  string, is no list of labels, and the manager built on it keeps the object's keys, or
  the string, in place of the default labels. With the object no index has a label.\<close>

theorem invalid_classes_kept_counterexample:
  "read_classes small_world ''object.json''
     = Parsed (JObj [(''0'', JStr ''Healthy''), (''1'', JStr ''Rust'')])
   \<and> map_option classes (init small_world ''net.keras'' ''object.json'' (1, 1) ''VGG16'')
       = Some (LabelDict [''0'', ''1''])
   \<and> LabelDict [''0'', ''1''] \<noteq> LabelList [''Healthy'', ''Mosaic'', ''RedRot'', ''Rust'', ''Yellow'']
   \<and> label_at (LabelDict [''0'', ''1'']) 0 = None
   \<and> label_at (LabelDict [''0'', ''1'']) 1 = None
   \<and> read_classes small_world ''string.json'' = Parsed (JStr ''HR'')
   \<and> load_classes small_world ''string.json'' = LabelStr ''HR''
   \<and> LabelStr ''HR'' \<noteq> LabelList [''Healthy'', ''Mosaic'', ''RedRot'', ''Rust'', ''Yellow'']"
proof -
  have "map_option classes (init small_world ''net.keras'' ''object.json'' (1, 1) ''VGG16'')
       = Some (LabelDict [''0'', ''1''])"
    by (simp only: init_small_world) (simp add: object_manager_def)
  then show ?thesis
    by (simp add: small_world_def runtime_def load_classes_def)
qed

subsection \<open>The random draws\<close>

lemma uniform_int_rotation:
  assumes "0 \<le> u" "u < 1"
  shows "uniform_int u 0 4 \<in> {0, 1, 2, 3}"
proof -
  have "0 \<le> \<lfloor>u * 4\<rfloor>" using assms by simp
  moreover have "\<lfloor>u * 4\<rfloor> < 4" using assms by (simp add: floor_less_iff)
  ultimately have "0 \<le> uniform_int u 0 4 \<and> uniform_int u 0 4 < 4"
    by (simp add: uniform_int_def)
  then show ?thesis by (simp, arith)
qed

lemma uniform_int_rotation_iff:
  "uniform_int u 0 4 = k \<longleftrightarrow> real_of_int k / 4 \<le> u \<and> u < (real_of_int k + 1) / 4"
  by (auto simp: uniform_int_def floor_eq_iff field_simps)

lemma uniform_real_range:
  assumes "0 \<le> u" "u < 1" "lo < hi"
  shows "lo \<le> uniform_real u lo hi \<and> uniform_real u lo hi < hi"
proof -
  have "u * (hi - lo) < 1 * (hi - lo)" using assms by (intro mult_strict_right_mono) auto
  moreover have "0 \<le> u * (hi - lo)" using assms by simp
  ultimately show ?thesis by (simp add: uniform_real_def)
qed

subsection \<open>The augmentation pass\<close>

lemma augment_unfold:
  "augment E u img =
     clip_by_value
       (adjust_saturation E
         (adjust_contrast E
           (adjust_brightness E
             ((if u_flip_ud u > 0.7 then flip_up_down E else id)
               ((if u_flip_lr u > 0.4 then flip_left_right E else id)
                 (rot90 E img (uniform_int (u_rotation u) 0 4))))
             (uniform_real (u_brightness u) (-0.2) 0.2))
           (uniform_real (u_contrast u) 0.7 1.4))
         (uniform_real (u_saturation u) 0.5 1.8)) 0 255"
  by (simp add: augment_def Let_def uniform_real_def)

lemma augment_entries:
  assumes "v \<in> entries (augment E u img)"
  shows "0 \<le> v \<and> v \<le> 255"
  using assms entries_clip_by_value [of 0 255 v] by (simp add: augment_def Let_def)

text \<open>
  C7. One pass of the loop, for variates in \<open>[0, 1)\<close>: the rotation is by \<open>k\<close> quarter
  turns with \<open>k\<close> one of 0, 1, 2, 3, each on a quarter of the unit interval; then the
  horizontal flip exactly when its draw lies in \<open>(0.4, 1)\<close>, the vertical flip exactly
  when its draw lies in \<open>(0.7, 1)\<close>; then the brightness shift by a number in
  \<open>[-0.2, 0.2)\<close>, the contrast factor in \<open>[0.7, 1.4)\<close>, the saturation factor in
  \<open>[0.5, 1.8)\<close>, each applied to the result of the step before; and last the clip,
  after which every entry lies in \<open>[0, 255]\<close>.
\<close>

theorem augment_steps_in_order:
  assumes "0 \<le> u_rotation u \<and> u_rotation u < 1"
    and "0 \<le> u_flip_lr u \<and> u_flip_lr u < 1"
    and "0 \<le> u_flip_ud u \<and> u_flip_ud u < 1"
    and "0 \<le> u_brightness u \<and> u_brightness u < 1"
    and "0 \<le> u_contrast u \<and> u_contrast u < 1"
    and "0 \<le> u_saturation u \<and> u_saturation u < 1"
  shows "augment E u img =
     clip_by_value
       (adjust_saturation E
         (adjust_contrast E
           (adjust_brightness E
             ((if u_flip_ud u \<in> {0.7<..<1} then flip_up_down E else id)
               ((if u_flip_lr u \<in> {0.4<..<1} then flip_left_right E else id)
                 (rot90 E img (uniform_int (u_rotation u) 0 4))))
             (uniform_real (u_brightness u) (-0.2) 0.2))
           (uniform_real (u_contrast u) 0.7 1.4))
         (uniform_real (u_saturation u) 0.5 1.8)) 0 255
   \<and> uniform_int (u_rotation u) 0 4 \<in> {0, 1, 2, 3}
   \<and> (\<forall>k. uniform_int (u_rotation u) 0 4 = k \<longleftrightarrow>
          real_of_int k / 4 \<le> u_rotation u \<and> u_rotation u < (real_of_int k + 1) / 4)
   \<and> - 0.2 \<le> uniform_real (u_brightness u) (-0.2) 0.2
   \<and> uniform_real (u_brightness u) (-0.2) 0.2 < 0.2
   \<and> 0.7 \<le> uniform_real (u_contrast u) 0.7 1.4
   \<and> uniform_real (u_contrast u) 0.7 1.4 < 1.4
   \<and> 0.5 \<le> uniform_real (u_saturation u) 0.5 1.8
   \<and> uniform_real (u_saturation u) 0.5 1.8 < 1.8
   \<and> (\<forall>v \<in> entries (augment E u img). 0 \<le> v \<and> v \<le> 255)"
proof -
  have flips: "(u_flip_ud u \<in> {0.7<..<1}) = (u_flip_ud u > 0.7)"
    "(u_flip_lr u \<in> {0.4<..<1}) = (u_flip_lr u > 0.4)"
    using assms by auto
  have order: "augment E u img =
     clip_by_value
       (adjust_saturation E
         (adjust_contrast E
           (adjust_brightness E
             ((if u_flip_ud u \<in> {0.7<..<1} then flip_up_down E else id)
               ((if u_flip_lr u \<in> {0.4<..<1} then flip_left_right E else id)
                 (rot90 E img (uniform_int (u_rotation u) 0 4))))
             (uniform_real (u_brightness u) (-0.2) 0.2))
           (uniform_real (u_contrast u) 0.7 1.4))
         (uniform_real (u_saturation u) 0.5 1.8)) 0 255"
    unfolding flips by (rule augment_unfold)
  have rot: "uniform_int (u_rotation u) 0 4 \<in> {0, 1, 2, 3}"
    using assms(1) uniform_int_rotation [of "u_rotation u"] by blast
  have bri: "- 0.2 \<le> uniform_real (u_brightness u) (-0.2) 0.2
      \<and> uniform_real (u_brightness u) (-0.2) 0.2 < 0.2"
    using uniform_real_range [of "u_brightness u" "-0.2" "0.2"] assms(4) by simp
  have con: "0.7 \<le> uniform_real (u_contrast u) 0.7 1.4
      \<and> uniform_real (u_contrast u) 0.7 1.4 < 1.4"
    using uniform_real_range [of "u_contrast u" "0.7" "1.4"] assms(5) by simp
  have sat: "0.5 \<le> uniform_real (u_saturation u) 0.5 1.8
      \<and> uniform_real (u_saturation u) 0.5 1.8 < 1.8"
    using uniform_real_range [of "u_saturation u" "0.5" "1.8"] assms(6) by simp
  have clip: "\<forall>v \<in> entries (augment E u img). 0 \<le> v \<and> v \<le> 255"
    using augment_entries by blast
  show ?thesis
    using order rot uniform_int_rotation_iff bri con sat clip by blast
qed

theorem augment_steps_in_order_witness:
  "0 \<le> u_rotation (steady 0) \<and> u_rotation (steady 0) < 1
   \<and> 0 \<le> u_flip_lr (steady 0) \<and> u_flip_lr (steady 0) < 1
   \<and> 0 \<le> u_flip_ud (steady 0) \<and> u_flip_ud (steady 0) < 1
   \<and> 0 \<le> u_brightness (steady 0) \<and> u_brightness (steady 0) < 1
   \<and> 0 \<le> u_contrast (steady 0) \<and> u_contrast (steady 0) < 1
   \<and> 0 \<le> u_saturation (steady 0) \<and> u_saturation (steady 0) < 1
   \<and> augment small_world (steady 0) [[[-1, -1, -1], [10, 10, 10]]] = [[[10, 10, 10], [0, 0, 0]]]"
proof -
  have a: "0 \<le> u_rotation (steady 0) \<and> u_rotation (steady 0) < 1"
    and b: "0 \<le> u_flip_lr (steady 0) \<and> u_flip_lr (steady 0) < 1"
    and c: "0 \<le> u_flip_ud (steady 0) \<and> u_flip_ud (steady 0) < 1"
    and d: "0 \<le> u_brightness (steady 0) \<and> u_brightness (steady 0) < 1"
    and e: "0 \<le> u_contrast (steady 0) \<and> u_contrast (steady 0) < 1"
    and f: "0 \<le> u_saturation (steady 0) \<and> u_saturation (steady 0) < 1"
    by (simp_all add: steady_def)
  have sat: "tf_adjust_saturation [[[10, 10, 10], [-1, -1, -1]]] 1 = [[[10, 10, 10], [-1, -1, -1]]]"
    by (simp add: tf_adjust_saturation_def rgb_to_hsv_def hsv_to_rgb_def Let_def)
  have con: "tf_adjust_contrast [[[10, 10, 10], [-1, -1, -1]]] 1 = [[[10, 10, 10], [-1, -1, -1]]]"
    by (simp add: tf_adjust_contrast_def channel_mean_def upt_rec [of 0] nth_Cons')
  have "augment small_world (steady 0) [[[-1, -1, -1], [10, 10, 10]]] = [[[10, 10, 10], [0, 0, 0]]]"
    using augment_steps_in_order [OF a b c d e f, of small_world "[[[-1, -1, -1], [10, 10, 10]]]"]
    by (simp add: steady_def small_world_def runtime_def uniform_int_def uniform_real_def
        tf_rot90_def tf_flip_left_right_def tf_adjust_brightness_def tensor_map_def
        clip_by_value_def sat con)
  then show ?thesis using a b c d e f by simp
qed

subsection \<open>Single precision\<close>

lemma round_half_even_error: "\<bar>real_of_int (round_half_even y) - y\<bar> \<le> 1 / 2"
proof -
  have "real_of_int \<lfloor>y\<rfloor> \<le> y" "y < real_of_int \<lfloor>y\<rfloor> + 1"
    by linarith+
  then show ?thesis
    by (auto simp: round_half_even_def Let_def)
qed

lemma round_half_even_int: "round_half_even (real_of_int m) = m"
  by (simp add: round_half_even_def)

text \<open>With the exponent at hand, \<open>float32\<close> needs no logarithm.\<close>

lemma float32_exponent:
  assumes "2 powi e \<le> \<bar>x\<bar>" and "\<bar>x\<bar> < 2 powi (e + 1)"
  shows "float32 x = 2 powi (e - 23) * real_of_int (round_half_even (x / 2 powi (e - 23)))"
proof -
  have pos: "0 < \<bar>x\<bar>"
    using assms(1) by (smt (verit) zero_less_power_int)
  have "(2::real) powr real_of_int (e + 1) = 2 powi (e + 1)"
    by (rule powr_real_of_int') simp_all
  then have up: "(2::real) powr (real_of_int e + 1) = 2 powi (e + 1)"
    by simp
  have "\<lfloor>log 2 \<bar>x\<bar>\<rfloor> = e"
    using assms pos by (simp add: floor_log_eq_powr_iff powr_real_of_int' up)
  with pos show ?thesis
    by (simp add: float32_def Let_def)
qed

lemma float32_error: "\<bar>float32 x - x\<bar> \<le> \<bar>x\<bar> / 2 ^ 24"
proof (cases "x = 0")
  case True
  then show ?thesis by (simp add: float32_def)
next
  case False
  define e where "e = \<lfloor>log 2 \<bar>x\<bar>\<rfloor>"
  define ulp :: real where "ulp = 2 powi (e - 23)"
  have ulp_pos: "0 < ulp"
    by (simp add: ulp_def)
  have low: "2 powi e \<le> \<bar>x\<bar>"
    using False floor_log_eq_powr_iff [of "\<bar>x\<bar>" 2 e]
    by (simp add: e_def powr_real_of_int')
  have "ulp * 2 ^ 23 = 2 powi e"
    by (simp add: ulp_def power_int_diff)
  with low have ulp_le: "ulp \<le> \<bar>x\<bar> / 2 ^ 23"
    by (simp add: field_simps)
  have "float32 x - x = ulp * (real_of_int (round_half_even (x / ulp)) - x / ulp)"
    using False ulp_pos by (simp add: float32_def Let_def e_def ulp_def algebra_simps)
  then have "\<bar>float32 x - x\<bar> = ulp * \<bar>real_of_int (round_half_even (x / ulp)) - x / ulp\<bar>"
    using ulp_pos by (simp add: abs_mult)
  also have "\<dots> \<le> ulp * (1 / 2)"
    using ulp_pos round_half_even_error [of "x / ulp"] by (intro mult_left_mono) simp_all
  also have "\<dots> \<le> (\<bar>x\<bar> / 2 ^ 23) * (1 / 2)"
    using ulp_le by simp
  finally show ?thesis by simp
qed

lemma float32_error_below_128:
  assumes "\<bar>x\<bar> \<le> 100"
  shows "\<bar>float32 x - x\<bar> \<le> 1 / 2 ^ 18"
proof (cases "x = 0")
  case True
  then show ?thesis by (simp add: float32_def)
next
  case False
  define e where "e = \<lfloor>log 2 \<bar>x\<bar>\<rfloor>"
  define ulp :: real where "ulp = 2 powi (e - 23)"
  have ulp_pos: "0 < ulp"
    by (simp add: ulp_def)
  have "2 powi e \<le> \<bar>x\<bar>"
    using False floor_log_eq_powr_iff [of "\<bar>x\<bar>" 2 e]
    by (simp add: e_def powr_real_of_int')
  with assms have "(2::real) powi e < 2 powi 7"
    by simp
  then have "e < 7"
    by (rule power_int_le_imp_less_exp [rotated]) simp_all
  then have "e - 23 \<le> - 17" by simp
  then have "ulp \<le> 2 powi (- 17)"
    unfolding ulp_def by (intro power_int_increasing) simp_all
  then have ulp_le: "ulp \<le> 1 / 2 ^ 17"
    by (simp add: power_int_minus field_simps)
  have "float32 x - x = ulp * (real_of_int (round_half_even (x / ulp)) - x / ulp)"
    using False ulp_pos by (simp add: float32_def Let_def e_def ulp_def algebra_simps)
  then have "\<bar>float32 x - x\<bar> = ulp * \<bar>real_of_int (round_half_even (x / ulp)) - x / ulp\<bar>"
    using ulp_pos by (simp add: abs_mult)
  also have "\<dots> \<le> ulp * (1 / 2)"
    using ulp_pos round_half_even_error [of "x / ulp"] by (intro mult_left_mono) simp_all
  also have "\<dots> \<le> (1 / 2 ^ 17) * (1 / 2)"
    using ulp_le by simp
  finally show ?thesis by simp
qed

lemma float32_values:
  "float32 0 = 0"
  "float32 100 = 100"
  "float32 50 = 50"
  "float32 75 = 75"
  "float32 10 = 10"
  "float32 20 = 20"
  "float32 (200 / 3) = 8738133 / 131072"
  "float32 (279620275 / 4194304) = 4369067 / 65536"
proof -
  show "float32 0 = 0"
    by (simp add: float32_def)
  have e6: "float32 x = 2 powi (- 17) * real_of_int (round_half_even (x / 2 powi (- 17)))"
    if "64 \<le> \<bar>x\<bar>" "\<bar>x\<bar> < 128" for x
    using float32_exponent [of 6 x] that by simp
  have e5: "float32 x = 2 powi (- 18) * real_of_int (round_half_even (x / 2 powi (- 18)))"
    if "32 \<le> \<bar>x\<bar>" "\<bar>x\<bar> < 64" for x
    using float32_exponent [of 5 x] that by simp
  have e4: "float32 x = 2 powi (- 19) * real_of_int (round_half_even (x / 2 powi (- 19)))"
    if "16 \<le> \<bar>x\<bar>" "\<bar>x\<bar> < 32" for x
    using float32_exponent [of 4 x] that by simp
  have e3: "float32 x = 2 powi (- 20) * real_of_int (round_half_even (x / 2 powi (- 20)))"
    if "8 \<le> \<bar>x\<bar>" "\<bar>x\<bar> < 16" for x
    using float32_exponent [of 3 x] that by simp
  show "float32 100 = 100"
    by (subst e6) (simp_all add: power_int_minus round_half_even_def)
  show "float32 75 = 75"
    by (subst e6) (simp_all add: power_int_minus round_half_even_def)
  show "float32 50 = 50"
    by (subst e5) (simp_all add: power_int_minus round_half_even_def)
  show "float32 20 = 20"
    by (subst e4) (simp_all add: power_int_minus round_half_even_def)
  show "float32 10 = 10"
    by (subst e3) (simp_all add: power_int_minus round_half_even_def)
  have f1: "\<lfloor>26214400 / 3 :: real\<rfloor> = 8738133"
    by (simp add: floor_eq_iff)
  show "float32 (200 / 3) = 8738133 / 131072"
    by (subst e6) (simp_all add: power_int_minus round_half_even_def f1)
  have f2: "\<lfloor>279620275 / 32 :: real\<rfloor> = 8738133"
    by (simp add: floor_eq_iff)
  show "float32 (279620275 / 4194304) = 4369067 / 65536"
    by (subst e6) (simp_all add: power_int_minus round_half_even_def f2)
qed

subsection \<open>NumPy helpers\<close>

lemma mean_axis0_single: "mean_axis0 [v] = Some v"
  by (simp add: mean_axis0_def map_nth)

lemma mean_axis0_Some:
  assumes "mean_axis0 vs = Some avg"
  shows "vs \<noteq> [] \<and> (\<forall>w \<in> set vs. length w = length avg)
    \<and> (\<forall>j < length avg. avg ! j = sum_list (map (\<lambda>w. w ! j) vs) / real (length vs))"
proof (cases vs)
  case Nil
  with assms show ?thesis by (simp add: mean_axis0_def)
next
  case (Cons v rest)
  with assms have same: "list_all (\<lambda>w. length w = length v) rest"
    and avg: "avg = map (\<lambda>j. sum_list (map (\<lambda>w. w ! j) vs) / real (length vs)) [0..<length v]"
    by (auto simp: mean_axis0_def split: if_splits)
  from avg have len: "length avg = length v" by simp
  from same Cons len have "\<forall>w \<in> set vs. length w = length avg"
    by (auto simp: list_all_iff)
  moreover from avg len have
    "\<forall>j < length avg. avg ! j = sum_list (map (\<lambda>w. w ! j) vs) / real (length vs)"
    by simp
  ultimately show ?thesis using Cons by simp
qed

lemma argmax_Some:
  assumes "argmax xs = Some i"
  shows "i < length xs \<and> xs ! i = Max (set xs) \<and> (\<forall>j < i. xs ! j < xs ! i)"
proof -
  from assms obtain k where k: "k < length [0..<length xs]" "xs ! ([0..<length xs] ! k) = Max (set xs)"
    "i = [0..<length xs] ! k" "\<forall>j < k. xs ! ([0..<length xs] ! j) \<noteq> Max (set xs)"
    unfolding argmax_def find_Some_iff by blast
  then have i: "i < length xs" "xs ! i = Max (set xs)" and ik: "i = k"
    by simp_all
  have "xs ! j < xs ! i" if "j < i" for j
  proof -
    from that i ik k(4) have "xs ! j \<noteq> Max (set xs)" by simp
    moreover have "xs ! j \<le> Max (set xs)" using that i by simp
    ultimately show ?thesis using i by simp
  qed
  with i show ?thesis by blast
qed


lemma those_map_Some:
  assumes "those (map f xs) = Some ys"
  shows "length ys = length xs \<and> (\<forall>i < length xs. f (xs ! i) = Some (ys ! i))"
  using assms
proof (induction xs arbitrary: ys)
  case Nil
  then show ?case by simp
next
  case (Cons x xs)
  then obtain y zs where y: "f x = Some y" and zs: "those (map f xs) = Some zs" and ys: "ys = y # zs"
    by (auto split: option.splits)
  from Cons.IH [OF zs] y ys show ?case
    by (auto simp: nth_Cons split: nat.splits)
qed

subsection \<open>Aggregation\<close>

lemma tta_model_inputs_length: "length (tta_model_inputs E img K) = nat K + 1"
  by (simp add: tta_model_inputs_def)

lemma tta_model_inputs_nth:
  "tta_model_inputs E img K ! 0 = img"
  "i < nat K \<Longrightarrow> tta_model_inputs E img K ! (i + 1) = augment E (random_source E i) img"
  by (simp_all add: tta_model_inputs_def)

text \<open>
  C5. With \<open>num_augmentations = 0\<close> the loop of \<open>predict_with_tta\<close> does not run and the mean
  of the single vector is that vector: it returns None exactly when \<open>predict_single_direct\<close>
  does, and otherwise the same class, confidence, probability and probabilities, with the
  one further key \<open>num_augmentations\<close>.
\<close>

theorem tta_zero_is_direct:
  "predict_with_tta E M image_path 0 =
     map_option (\<lambda>r. r\<lparr>p_num_augmentations := Some 0\<rparr>) (predict_single_direct E M image_path)"
  by (simp add: predict_with_tta_def predict_single_direct_def tta_model_inputs_def
      mean_axis0_single Let_def split: option.splits)

subsection \<open>Running the small world\<close>

lemma upt_2: "[0..<2] = [0, 1]"
  by (simp add: upt_rec)

lemma small_world_fields:
  "random_source small_world = steady"
  "tf_read_decode_resize small_world p s = black_leaf p"
  "pil_open_rgb_resize small_world p s = black_leaf p"
  "np_argsort small_world = insertion_argsort"
  by (simp_all add: small_world_def runtime_def)

lemma other_world_fields:
  "tf_read_decode_resize other_world p s = black_leaf p"
  "np_argsort other_world = other_argsort"
  by (simp_all add: other_world_def small_world_def runtime_def)

lemma load_leaf:
  assumes "preprocess_fn M = fallback_preprocess"
  shows "load_and_preprocess_image_tf small_world M ''leaf.jpg'' = Some [[[-1, -1, -1]]]"
    and "load_and_preprocess_image_tf other_world M ''leaf.jpg'' = Some [[[-1, -1, -1]]]"
  using assms
  by (simp_all add: load_and_preprocess_image_tf_def small_world_fields other_world_fields
      black_leaf_def fallback_preprocess_def tensor_map_def)

lemma load_nothing: "load_and_preprocess_image_tf small_world M ''none.jpg'' = None"
  by (simp add: load_and_preprocess_image_tf_def small_world_fields black_leaf_def)

lemma augment_dark: "augment small_world (steady i) [[[-1, -1, -1]]] = [[[0, 0, 0]]]"
  by (simp add: augment_def small_world_def runtime_def steady_def uniform_int_def
      uniform_real_def tf_rot90_def tf_flip_left_right_def tf_adjust_brightness_def
      tf_adjust_contrast_def channel_mean_def tf_adjust_saturation_def rgb_to_hsv_def
      hsv_to_rgb_def clip_by_value_def tensor_map_def Let_def upt_rec [of 0] nth_Cons')

lemma augment_black: "augment small_world (steady i) [[[0, 0, 0]]] = [[[0, 0, 0]]]"
  by (simp add: augment_def small_world_def runtime_def steady_def uniform_int_def
      uniform_real_def tf_rot90_def tf_flip_left_right_def tf_adjust_brightness_def
      tf_adjust_contrast_def channel_mean_def tf_adjust_saturation_def rgb_to_hsv_def
      hsv_to_rgb_def clip_by_value_def tensor_map_def Let_def upt_rec [of 0] nth_Cons')

lemma small_manager_fields:
  "model small_manager = red_reader"
  "classes small_manager = LabelList [''Healthy'', ''Rust'']"
  "preprocess_fn small_manager = fallback_preprocess"
  "img_size small_manager = (1, 1)"
  by (simp_all add: small_manager_def)

lemma red_reader_values:
  "red_reader [[[-1, -1, -1]]] = Some [1, 0]"
  "red_reader [[[0, 0, 0]]] = Some [1 / 2, 1 / 2]"
  by (simp_all add: red_reader_def)

lemma two_labels:
  "probabilities_of (LabelList [''Healthy'', ''Rust'']) [a, b] =
     Some (if a < b then [(''Rust'', b), (''Healthy'', a)] else [(''Healthy'', a), (''Rust'', b)])"
  by (simp add: probabilities_of_def upt_2 dict_of_def sorted_desc_def)

lemma argmax_two: "argmax [a, b] = Some (if a < b then 1 else 0)"
  by (auto simp: argmax_def upt_2 max_def)

lemma direct_leaf:
  "predict_single_direct small_world small_manager ''leaf.jpg'' =
     Some \<lparr>p_class = ''Healthy'', p_confidence = 100, p_probability = 1,
           p_probabilities = [(''Healthy'', 1), (''Rust'', 0)],
           p_num_augmentations = None\<rparr>"
  by (simp add: predict_single_direct_def load_leaf small_manager_fields red_reader_values
      two_labels argmax_two Let_def float32_values)

lemma direct_thirds:
  "predict_single_direct small_world thirds_manager ''leaf.jpg'' =
     Some \<lparr>p_class = ''Healthy'', p_confidence = 4369067 / 65536,
           p_probability = 11184811 / 16777216,
           p_probabilities = [(''Healthy'', 11184811 / 16777216), (''Rust'', 5592405 / 16777216)],
           p_num_augmentations = None\<rparr>"
proof -
  have p: "preprocess_fn thirds_manager = fallback_preprocess"
    by (simp add: thirds_manager_def)
  have m: "model thirds_manager [[[-1, -1, -1]]] = Some [11184811 / 16777216, 5592405 / 16777216]"
    "classes thirds_manager = LabelList [''Healthy'', ''Rust'']"
    by (simp_all add: thirds_manager_def thirds_model_def)
  show ?thesis
    by (simp add: predict_single_direct_def load_leaf p m two_labels argmax_two Let_def
        float32_values)
qed

lemma tta_inputs_leaf:
  "tta_model_inputs small_world [[[-1, -1, -1]]] 1 = [[[[-1, -1, -1]]], [[[0, 0, 0]]]]"
  "tta_model_inputs small_world [[[-1, -1, -1]]] 2 =
     [[[[-1, -1, -1]]], [[[0, 0, 0]]], [[[0, 0, 0]]]]"
  by (simp_all add: tta_model_inputs_def augment_dark small_world_fields upt_2)

lemma tta_leaf_1:
  "predict_with_tta small_world small_manager ''leaf.jpg'' 1 =
     Some \<lparr>p_class = ''Healthy'', p_confidence = 75, p_probability = 3 / 4,
           p_probabilities = [(''Healthy'', 3 / 4), (''Rust'', 1 / 4)],
           p_num_augmentations = Some 1\<rparr>"
proof -
  have "mean_axis0 [[1, 0], [1 / 2, 1 / 2]] = Some [3 / 4, 1 / 4]"
    by (simp add: mean_axis0_def upt_2)
  then show ?thesis
    by (simp add: predict_with_tta_def load_leaf small_manager_fields tta_inputs_leaf
        red_reader_values two_labels argmax_two Let_def float32_values)
qed


lemma predict_leaf:
  "predict small_world small_manager ''leaf.jpg'' =
     Some \<lparr>b_class = ''Healthy'', b_confidence = 1 / 2,
           b_probabilities = [(''Healthy'', 1 / 2), (''Rust'', 1 / 2)]\<rparr>"
  by (simp add: predict_def preprocess_image_def small_world_fields black_leaf_def
      tensor_map_def small_manager_fields red_reader_values two_labels argmax_two)

lemma top_3_leaf:
  "get_top_3_predictions small_world small_manager ''leaf.jpg'' =
     Some [\<lparr>t_class = ''Healthy'', t_confidence = 100, t_probability = 1\<rparr>,
           \<lparr>t_class = ''Rust'', t_confidence = 0, t_probability = 0\<rparr>]"
proof -
  have "insertion_argsort [1, 0] = [1, 0]"
    by (simp add: insertion_argsort_def upt_2)
  then show ?thesis
    by (simp add: get_top_3_predictions_def load_leaf small_manager_fields red_reader_values
        small_world_fields float32_values)
qed

lemma tied_sorts:
  "insertion_argsort [1 / 2, 1 / 2, 0, 0, 0] = [2, 3, 4, 0, 1]"
  "other_argsort [1 / 2, 1 / 2, 0, 0, 0] = [3, 2, 4, 1, 0]"
  "is_argsort [1 / 2, 1 / 2, 0, 0, 0] [2, 3, 4, 0, 1]"
  "is_argsort [1 / 2, 1 / 2, 0, 0, 0] [3, 2, 4, 1, 0]"
  by (auto simp: insertion_argsort_def other_argsort_def is_argsort_def upt_rec [of 0]
      upt_rec [of 1] upt_rec [of 2] upt_rec [of 3] upt_rec [of 4])

lemma top_3_tied:
  "get_top_3_predictions small_world tied_manager ''leaf.jpg'' =
     Some [\<lparr>t_class = ''Mosaic'', t_confidence = 50, t_probability = 1 / 2\<rparr>,
           \<lparr>t_class = ''Healthy'', t_confidence = 50, t_probability = 1 / 2\<rparr>,
           \<lparr>t_class = ''Yellow'', t_confidence = 0, t_probability = 0\<rparr>]"
  "get_top_3_predictions other_world tied_manager ''leaf.jpg'' =
     Some [\<lparr>t_class = ''Healthy'', t_confidence = 50, t_probability = 1 / 2\<rparr>,
           \<lparr>t_class = ''Mosaic'', t_confidence = 50, t_probability = 1 / 2\<rparr>,
           \<lparr>t_class = ''Yellow'', t_confidence = 0, t_probability = 0\<rparr>]"
proof -
  have p: "preprocess_fn tied_manager = fallback_preprocess"
    by (simp add: tied_manager_def)
  have m: "model tied_manager [[[-1, -1, -1]]] = Some [1 / 2, 1 / 2, 0, 0, 0]"
    "classes tied_manager = LabelList [''Healthy'', ''Mosaic'', ''RedRot'', ''Rust'', ''Yellow'']"
    by (simp_all add: tied_manager_def tied_model_def)
  show "get_top_3_predictions small_world tied_manager ''leaf.jpg'' =
     Some [\<lparr>t_class = ''Mosaic'', t_confidence = 50, t_probability = 1 / 2\<rparr>,
           \<lparr>t_class = ''Healthy'', t_confidence = 50, t_probability = 1 / 2\<rparr>,
           \<lparr>t_class = ''Yellow'', t_confidence = 0, t_probability = 0\<rparr>]"
    by (simp add: get_top_3_predictions_def load_leaf p m small_world_fields tied_sorts
        float32_values)
  show "get_top_3_predictions other_world tied_manager ''leaf.jpg'' =
     Some [\<lparr>t_class = ''Healthy'', t_confidence = 50, t_probability = 1 / 2\<rparr>,
           \<lparr>t_class = ''Mosaic'', t_confidence = 50, t_probability = 1 / 2\<rparr>,
           \<lparr>t_class = ''Yellow'', t_confidence = 0, t_probability = 0\<rparr>]"
    by (simp add: get_top_3_predictions_def load_leaf p m other_world_fields tied_sorts
        float32_values)
qed

lemma six_leaf:
  "predict_single_direct small_world six_manager ''leaf.jpg'' =
     Some \<lparr>p_class = ''Healthy'', p_confidence = 50, p_probability = 1 / 2,
           p_probabilities = [(''Healthy'', 1 / 2), (''Mosaic'', 1 / 10), (''RedRot'', 1 / 10),
                              (''Rust'', 1 / 10), (''Yellow'', 0)],
           p_num_augmentations = None\<rparr>"
  "get_top_3_predictions small_world six_manager ''leaf.jpg'' = None"
proof -
  have p: "preprocess_fn six_manager = fallback_preprocess"
    by (simp add: six_manager_def)
  have m: "model six_manager [[[-1, -1, -1]]] = Some [1 / 2, 1 / 10, 1 / 10, 1 / 10, 0, 1 / 5]"
    "classes six_manager = LabelList [''Healthy'', ''Mosaic'', ''RedRot'', ''Rust'', ''Yellow'']"
    by (simp_all add: six_manager_def six_model_def)
  have a: "argmax [1 / 2, 1 / 10, 1 / 10, 1 / 10, 0, 1 / 5] = Some 0"
    by (simp add: argmax_def upt_rec [of 0])
  have s: "insertion_argsort [1 / 2, 1 / 10, 1 / 10, 1 / 10, 0, 1 / 5] = [4, 1, 2, 3, 5, 0]"
    by (simp add: insertion_argsort_def upt_rec [of 0] upt_rec [of 1] upt_rec [of 2]
        upt_rec [of 3] upt_rec [of 4] upt_rec [of 5])
  have d: "probabilities_of (LabelList [''Healthy'', ''Mosaic'', ''RedRot'', ''Rust'', ''Yellow''])
       [1 / 2, 1 / 10, 1 / 10, 1 / 10, 0, 1 / 5] =
     Some [(''Healthy'', 1 / 2), (''Mosaic'', 1 / 10), (''RedRot'', 1 / 10),
           (''Rust'', 1 / 10), (''Yellow'', 0)]"
    by (simp add: probabilities_of_def dict_of_def sorted_desc_def upt_rec [of 0] upt_rec [of 1]
        upt_rec [of 2] upt_rec [of 3] upt_rec [of 4])
  show "predict_single_direct small_world six_manager ''leaf.jpg'' =
     Some \<lparr>p_class = ''Healthy'', p_confidence = 50, p_probability = 1 / 2,
           p_probabilities = [(''Healthy'', 1 / 2), (''Mosaic'', 1 / 10), (''RedRot'', 1 / 10),
                              (''Rust'', 1 / 10), (''Yellow'', 0)],
           p_num_augmentations = None\<rparr>"
    by (simp add: predict_single_direct_def load_leaf p m a d Let_def float32_values)
  show "get_top_3_predictions small_world six_manager ''leaf.jpg'' = None"
    by (simp add: get_top_3_predictions_def load_leaf p m small_world_fields s float32_values)
qed

subsection \<open>When the helpers return\<close>

lemma those_map_None: "those (map f xs) = None \<longleftrightarrow> (\<exists>x \<in> set xs. f x = None)"
  by (induction xs) (auto split: option.splits)




subsection \<open>The aggregated result\<close>

lemma tta_result:
  assumes "predict_with_tta E M image_path K = Some r"
  shows "\<exists>img preds avg idx.
      load_and_preprocess_image_tf E M image_path = Some img
    \<and> length preds = nat K + 1
    \<and> model M img = Some (preds ! 0)
    \<and> (\<forall>i < nat K. model M (augment E (random_source E i) img) = Some (preds ! (i + 1)))
    \<and> (\<forall>p \<in> set preds. length p = length avg)
    \<and> (\<forall>j < length avg. avg ! j = sum_list (map (\<lambda>p. p ! j) preds) / (real (nat K) + 1))
    \<and> idx < length avg \<and> avg ! idx = Max (set avg) \<and> (\<forall>j < idx. avg ! j < avg ! idx)
    \<and> label_at (classes M) idx = Some (p_class r)
    \<and> p_probability r = avg ! idx
    \<and> p_confidence r = float32 (avg ! idx * 100)
    \<and> \<bar>p_confidence r - avg ! idx * 100\<bar> \<le> \<bar>avg ! idx * 100\<bar> / 2 ^ 24
    \<and> probabilities_of (classes M) avg = Some (p_probabilities r)
    \<and> p_num_augmentations r = Some K"
proof -
  from assms obtain img preds avg idx probs c where
    img: "load_and_preprocess_image_tf E M image_path = Some img"
    and preds: "those (map (model M) (tta_model_inputs E img K)) = Some preds"
    and avg: "mean_axis0 preds = Some avg"
    and idx: "argmax avg = Some idx"
    and probs: "probabilities_of (classes M) avg = Some probs"
    and c: "label_at (classes M) idx = Some c"
    and r: "r = \<lparr>p_class = c, p_confidence = float32 (avg ! idx * 100),
                 p_probability = avg ! idx,
                 p_probabilities = probs, p_num_augmentations = Some K\<rparr>"
    by (auto simp: predict_with_tta_def Let_def split: option.splits)
  from those_map_Some [OF preds] have len: "length preds = nat K + 1"
    and each: "\<forall>i < nat K + 1. model M (tta_model_inputs E img K ! i) = Some (preds ! i)"
    by (simp_all add: tta_model_inputs_length)
  from each have first: "model M img = Some (preds ! 0)"
    using tta_model_inputs_nth(1) [of E img K] by (metis zero_less_Suc Suc_eq_plus1)
  have rest: "\<forall>i < nat K. model M (augment E (random_source E i) img) = Some (preds ! (i + 1))"
  proof (intro allI impI)
    fix i assume i: "i < nat K"
    then have "model M (tta_model_inputs E img K ! (i + 1)) = Some (preds ! (i + 1))"
      using each by simp
    with tta_model_inputs_nth(2) [OF i, of E img]
    show "model M (augment E (random_source E i) img) = Some (preds ! (i + 1))"
      by simp
  qed
  from mean_axis0_Some [OF avg] len have
    same: "\<forall>p \<in> set preds. length p = length avg"
    and mean: "\<forall>j < length avg. avg ! j = sum_list (map (\<lambda>p. p ! j) preds) / (real (nat K) + 1)"
    by (simp_all add: add.commute)
  from argmax_Some [OF idx] have
    am: "idx < length avg \<and> avg ! idx = Max (set avg) \<and> (\<forall>j < idx. avg ! j < avg ! idx)" .
  from r c probs have fields: "label_at (classes M) idx = Some (p_class r)"
    "p_probability r = avg ! idx" "p_confidence r = float32 (avg ! idx * 100)"
    "probabilities_of (classes M) avg = Some (p_probabilities r)"
    "p_num_augmentations r = Some K"
    by simp_all
  from fields(3) float32_error [of "avg ! idx * 100"]
  have err: "\<bar>p_confidence r - avg ! idx * 100\<bar> \<le> \<bar>avg ! idx * 100\<bar> / 2 ^ 24"
    by simp
  from img len first rest same mean am fields err show ?thesis
    by blast
qed




theorem tta_zero_is_direct_witness:
  "predict_with_tta small_world small_manager ''leaf.jpg'' 0 =
     Some \<lparr>p_class = ''Healthy'', p_confidence = 100, p_probability = 1,
           p_probabilities = [(''Healthy'', 1), (''Rust'', 0)],
           p_num_augmentations = Some 0\<rparr>
   \<and> predict_with_tta small_world small_manager ''none.jpg'' 0 = None
   \<and> predict_single_direct small_world small_manager ''none.jpg'' = None"
proof -
  have "predict_single_direct small_world small_manager ''none.jpg'' = None"
    by (simp add: predict_single_direct_def load_nothing)
  then show ?thesis
    using tta_zero_is_direct [of small_world small_manager "''leaf.jpg''"]
      tta_zero_is_direct [of small_world small_manager "''none.jpg''"]
    by (simp add: direct_leaf)
qed

subsection \<open>Confidence and probability\<close>

lemma direct_confidence:
  assumes "predict_single_direct E M image_path = Some r"
  shows "p_confidence r = float32 (p_probability r * 100)"
  using assms
  by (auto simp: predict_single_direct_def Let_def split: option.splits)

lemma tta_confidence:
  assumes "predict_with_tta E M image_path K = Some r"
  shows "p_confidence r = float32 (p_probability r * 100)"
  using assms
  by (auto simp: predict_with_tta_def Let_def split: option.splits)

lemma improved_confidence:
  "r_confidence (improved_predict E M image_path use_tta thr K) =
     float32 (r_probability (improved_predict E M image_path use_tta thr K) * 100)"
  by (auto simp: improved_predict_def error_result_def Let_def direct_confidence tta_confidence
      float32_values split: option.splits threshold.splits)

lemma predict_confidence:
  assumes "predict E M image_path = Some r"
  shows "\<exists>img predictions idx.
      preprocess_image E M image_path = Some img
    \<and> model M img = Some predictions
    \<and> idx < length predictions
    \<and> predictions ! idx = Max (set predictions)
    \<and> label_at (classes M) idx = Some (b_class r)
    \<and> b_confidence r = predictions ! idx"
proof -
  from assms obtain img predictions idx c probs where
    a: "preprocess_image E M image_path = Some img" "model M img = Some predictions"
    and idx: "argmax predictions = Some idx"
    and c: "label_at (classes M) idx = Some c"
    and r: "r = \<lparr>b_class = c, b_confidence = predictions ! idx, b_probabilities = probs\<rparr>"
    by (auto simp: predict_def split: option.splits)
  from argmax_Some [OF idx]
  have b: "idx < length predictions" "predictions ! idx = Max (set predictions)"
    by simp_all
  from r c have d: "label_at (classes M) idx = Some (b_class r)"
    "b_confidence r = predictions ! idx"
    by simp_all
  from a b d show ?thesis by blast
qed

lemma float32_percent:
  assumes "c = float32 (p * 100)"
  shows "\<bar>c - p * 100\<bar> \<le> \<bar>p * 100\<bar> / 2 ^ 24"
    and "\<bar>p\<bar> \<le> 1 \<Longrightarrow> \<bar>c - p * 100\<bar> \<le> 1 / 2 ^ 18"
proof -
  show "\<bar>c - p * 100\<bar> \<le> \<bar>p * 100\<bar> / 2 ^ 24"
    unfolding assms by (rule float32_error)
  assume "\<bar>p\<bar> \<le> 1"
  then have "\<bar>p * 100\<bar> \<le> 100"
    by (simp add: abs_mult)
  then show "\<bar>c - p * 100\<bar> \<le> 1 / 2 ^ 18"
    unfolding assms by (rule float32_error_below_128)
qed

text \<open>
  C4, as the code has it. In every result of \<open>predict_single_direct\<close>, \<open>predict_with_tta\<close> and
  \<open>improved_predict\<close> (the error results too) the confidence is the float32 product of
  the probability and 100. It differs from the probability times 100 by at most that
  product over \<open>2^24\<close>, so by at most \<open>1 / 2^18\<close>, about 3.8 millionths, for a
  probability between 0 and 1. A result of \<open>predict\<close> has no probability field: its
  confidence is the largest entry of the model's output itself, on the scale of 0 to 1.
\<close>

theorem confidence_scale:
  "(\<forall>r. predict_single_direct E M image_path = Some r \<longrightarrow>
        p_confidence r = float32 (p_probability r * 100)
      \<and> \<bar>p_confidence r - p_probability r * 100\<bar> \<le> \<bar>p_probability r * 100\<bar> / 2 ^ 24
      \<and> (\<bar>p_probability r\<bar> \<le> 1 \<longrightarrow>
           \<bar>p_confidence r - p_probability r * 100\<bar> \<le> 1 / 2 ^ 18))
   \<and> (\<forall>r. predict_with_tta E M image_path K = Some r \<longrightarrow>
        p_confidence r = float32 (p_probability r * 100)
      \<and> \<bar>p_confidence r - p_probability r * 100\<bar> \<le> \<bar>p_probability r * 100\<bar> / 2 ^ 24
      \<and> (\<bar>p_probability r\<bar> \<le> 1 \<longrightarrow>
           \<bar>p_confidence r - p_probability r * 100\<bar> \<le> 1 / 2 ^ 18))
   \<and> (\<forall>R. R = improved_predict E M image_path use_tta thr K \<longrightarrow>
        r_confidence R = float32 (r_probability R * 100)
      \<and> \<bar>r_confidence R - r_probability R * 100\<bar> \<le> \<bar>r_probability R * 100\<bar> / 2 ^ 24
      \<and> (\<bar>r_probability R\<bar> \<le> 1 \<longrightarrow>
           \<bar>r_confidence R - r_probability R * 100\<bar> \<le> 1 / 2 ^ 18)
      \<and> (status R = ''error'' \<longrightarrow> r_confidence R = 0 \<and> r_probability R = 0))
   \<and> (\<forall>r. predict E M image_path = Some r \<longrightarrow>
       (\<exists>img predictions idx.
          preprocess_image E M image_path = Some img
        \<and> model M img = Some predictions
        \<and> idx < length predictions
        \<and> predictions ! idx = Max (set predictions)
        \<and> label_at (classes M) idx = Some (b_class r)
        \<and> b_confidence r = predictions ! idx))"
proof (intro conjI allI impI)
  fix r assume a: "predict_single_direct E M image_path = Some r"
  show "p_confidence r = float32 (p_probability r * 100)"
    using a by (rule direct_confidence)
  show "\<bar>p_confidence r - p_probability r * 100\<bar> \<le> \<bar>p_probability r * 100\<bar> / 2 ^ 24"
    using direct_confidence [OF a] by (rule float32_percent(1))
  show "\<bar>p_confidence r - p_probability r * 100\<bar> \<le> 1 / 2 ^ 18" if "\<bar>p_probability r\<bar> \<le> 1"
    using direct_confidence [OF a] that by (rule float32_percent(2))
next
  fix r assume a: "predict_with_tta E M image_path K = Some r"
  show "p_confidence r = float32 (p_probability r * 100)"
    using a by (rule tta_confidence)
  show "\<bar>p_confidence r - p_probability r * 100\<bar> \<le> \<bar>p_probability r * 100\<bar> / 2 ^ 24"
    using tta_confidence [OF a] by (rule float32_percent(1))
  show "\<bar>p_confidence r - p_probability r * 100\<bar> \<le> 1 / 2 ^ 18" if "\<bar>p_probability r\<bar> \<le> 1"
    using tta_confidence [OF a] that by (rule float32_percent(2))
next
  fix R assume R: "R = improved_predict E M image_path use_tta thr K"
  then have c: "r_confidence R = float32 (r_probability R * 100)"
    by (simp add: improved_confidence)
  from c show "r_confidence R = float32 (r_probability R * 100)" .
  from c show "\<bar>r_confidence R - r_probability R * 100\<bar> \<le> \<bar>r_probability R * 100\<bar> / 2 ^ 24"
    by (rule float32_percent(1))
  show "\<bar>r_confidence R - r_probability R * 100\<bar> \<le> 1 / 2 ^ 18" if "\<bar>r_probability R\<bar> \<le> 1"
    using c that by (rule float32_percent(2))
  show "r_confidence R = 0" if "status R = ''error''"
    using that unfolding R
    by (cases thr)
      (auto simp: improved_predict_def error_result_def Let_def split: option.splits if_splits)
  show "r_probability R = 0" if "status R = ''error''"
    using that unfolding R
    by (cases thr)
      (auto simp: improved_predict_def error_result_def Let_def split: option.splits if_splits)
next
  fix r assume "predict E M image_path = Some r"
  then show "\<exists>img predictions idx.
          preprocess_image E M image_path = Some img
        \<and> model M img = Some predictions
        \<and> idx < length predictions
        \<and> predictions ! idx = Max (set predictions)
        \<and> label_at (classes M) idx = Some (b_class r)
        \<and> b_confidence r = predictions ! idx"
    by (rule predict_confidence)
qed

theorem confidence_scale_witness:
  "predict_single_direct small_world thirds_manager ''leaf.jpg'' =
     Some \<lparr>p_class = ''Healthy'', p_confidence = 4369067 / 65536,
           p_probability = 11184811 / 16777216,
           p_probabilities = [(''Healthy'', 11184811 / 16777216), (''Rust'', 5592405 / 16777216)],
           p_num_augmentations = None\<rparr>
   \<and> (4369067 / 65536 :: real) = float32 (11184811 / 16777216 * 100)
   \<and> \<bar>4369067 / 65536 - 11184811 / 16777216 * 100 :: real\<bar> \<le> 1 / 2 ^ 18
   \<and> predict_with_tta small_world small_manager ''leaf.jpg'' 1 =
     Some \<lparr>p_class = ''Healthy'', p_confidence = 75, p_probability = 3 / 4,
           p_probabilities = [(''Healthy'', 3 / 4), (''Rust'', 1 / 4)],
           p_num_augmentations = Some 1\<rparr>
   \<and> (75 :: real) = float32 (3 / 4 * 100)
   \<and> predict small_world small_manager ''leaf.jpg'' =
     Some \<lparr>b_class = ''Healthy'', b_confidence = 1 / 2,
           b_probabilities = [(''Healthy'', 1 / 2), (''Rust'', 1 / 2)]\<rparr>"
proof -
  note a = confidence_scale [of small_world thirds_manager "''leaf.jpg''" 1, THEN conjunct1,
      rule_format, OF direct_thirds]
  note b = confidence_scale [of small_world small_manager "''leaf.jpg''" 1, THEN conjunct2,
      THEN conjunct1, rule_format, OF tta_leaf_1]
  from a have "(4369067 / 65536 :: real) = float32 (11184811 / 16777216 * 100)"
    and "\<bar>4369067 / 65536 - 11184811 / 16777216 * 100 :: real\<bar> \<le> 1 / 2 ^ 18"
    by simp_all
  moreover from b have "(75 :: real) = float32 (3 / 4 * 100)"
    by simp
  ultimately show ?thesis
    by (simp only: direct_thirds tta_leaf_1 predict_leaf simp_thms)
qed

text \<open>The claim C4 as stated fails twice. A model's output of 0.6666667, the float32 number
  nearest to two thirds, has the float32 product 66.66667175 with 100, which is 3.1
  millionths above the probability times 100, more than one millionth. And on
  \<open>predict\<close> the winning class has probability \<open>1 / 2\<close> and the confidence returned is
  \<open>1 / 2\<close>, not 50.\<close>

theorem confidence_tolerance_counterexample:
  "predict_single_direct small_world thirds_manager ''leaf.jpg'' =
     Some \<lparr>p_class = ''Healthy'', p_confidence = 4369067 / 65536,
           p_probability = 11184811 / 16777216,
           p_probabilities = [(''Healthy'', 11184811 / 16777216), (''Rust'', 5592405 / 16777216)],
           p_num_augmentations = None\<rparr>
   \<and> (1 / 10 ^ 6 :: real) < \<bar>4369067 / 65536 - 11184811 / 16777216 * 100\<bar>
   \<and> predict small_world small_manager ''leaf.jpg'' =
     Some \<lparr>b_class = ''Healthy'', b_confidence = 1 / 2,
           b_probabilities = [(''Healthy'', 1 / 2), (''Rust'', 1 / 2)]\<rparr>
   \<and> map_of [(''Healthy'', 1 / 2), (''Rust'', 1 / 2 :: real)] ''Healthy'' = Some (1 / 2)
   \<and> (1 / 10 ^ 6 :: real) < \<bar>1 / 2 - 1 / 2 * 100\<bar>"
  by (simp add: direct_thirds predict_leaf)

subsection \<open>The decision policy\<close>

text \<open>
  C2, as the code has it. \<open>improved_predict\<close> is a total function, and the status of its
  result is one of \<open>success\<close>, \<open>warning\<close>, \<open>error\<close>. When the prediction it calls returns
  None, which is also what that prediction does on any exception inside it, the result is
  the error result with the fixed message, which holds no exception text. When the
  comparison with the threshold raises in its own body, it is the error result with the
  exception in the message. Both have confidence 0 and probability 0. Otherwise the
  status is \<open>warning\<close> when the probability is below the threshold and \<open>success\<close> when it
  is not, whatever the top three computation did, and in both the class, confidence,
  probability, probabilities and the key \<open>top_3\<close> are there.
\<close>

theorem improved_predict_status:
  "(let U = (if use_tta then predict_with_tta E M image_path K
             else predict_single_direct E M image_path);
        R = improved_predict E M image_path use_tta thr K;
        R_type_error = improved_predict E M image_path use_tta (NonNumeric ty) K;
        R_number = improved_predict E M image_path use_tta (Num t) K
    in (status R = ''success'' \<or> status R = ''warning'' \<or> status R = ''error'')
     \<and> (U = None \<longrightarrow>
          status R = ''error'' \<and> r_confidence R = 0 \<and> r_probability R = 0
          \<and> r_message R = Prediction_error)
     \<and> (U = Some res \<longrightarrow>
          status R_type_error = ''error''
          \<and> r_confidence R_type_error = 0 \<and> r_probability R_type_error = 0
          \<and> r_message R_type_error = Processing_error (TypeError_less_than ty))
     \<and> (U = Some res \<and> p_probability res < t \<longrightarrow>
          status R_number = ''warning''
          \<and> r_class R_number = Some (p_class res)
          \<and> r_confidence R_number = p_confidence res
          \<and> r_probability R_number = p_probability res
          \<and> r_probabilities R_number = Some (p_probabilities res)
          \<and> r_top_3 R_number = Some (get_top_3_predictions E M image_path)
          \<and> r_message R_number = Low_confidence (p_confidence res) (t * 100))
     \<and> (U = Some res \<and> t \<le> p_probability res \<longrightarrow>
          status R_number = ''success''
          \<and> r_class R_number = Some (p_class res)
          \<and> r_confidence R_number = p_confidence res
          \<and> r_probability R_number = p_probability res
          \<and> r_probabilities R_number = Some (p_probabilities res)
          \<and> r_top_3 R_number = Some (get_top_3_predictions E M image_path)
          \<and> r_message R_number = Detected (p_class res) (p_confidence res)))"
  by (cases thr)
    (simp_all add: improved_predict_def error_result_def Let_def split: option.splits)

theorem improved_predict_status_witness:
  "status (improved_predict small_world small_manager ''none.jpg'' True (Num (1 / 2)) 1) = ''error''
   \<and> r_message (improved_predict small_world small_manager ''none.jpg'' True (Num (1 / 2)) 1)
       = Prediction_error
   \<and> status (improved_predict small_world small_manager ''leaf.jpg'' True (NonNumeric ''str'') 1)
       = ''error''
   \<and> r_message (improved_predict small_world small_manager ''leaf.jpg'' True (NonNumeric ''str'') 1)
       = Processing_error (TypeError_less_than ''str'')
   \<and> status (improved_predict small_world small_manager ''leaf.jpg'' True (Num (4 / 5)) 1)
       = ''warning''
   \<and> r_class (improved_predict small_world small_manager ''leaf.jpg'' True (Num (4 / 5)) 1)
       = Some ''Healthy''
   \<and> r_confidence (improved_predict small_world small_manager ''leaf.jpg'' True (Num (4 / 5)) 1)
       = 75
   \<and> status (improved_predict small_world small_manager ''leaf.jpg'' True (Num (1 / 2)) 1)
       = ''success''
   \<and> r_probability (improved_predict small_world small_manager ''leaf.jpg'' True (Num (1 / 2)) 1)
       = 3 / 4"
proof -
  let ?res = "\<lparr>p_class = ''Healthy'', p_confidence = 75, p_probability = 3 / 4,
           p_probabilities = [(''Healthy'', 3 / 4), (''Rust'', 1 / 4)],
           p_num_augmentations = Some (1::int)\<rparr>"
  have none: "predict_with_tta small_world small_manager ''none.jpg'' 1 = None"
    by (simp add: predict_with_tta_def load_nothing)
  from improved_predict_status [where use_tta = True and E = small_world and M = small_manager
      and image_path = "''none.jpg''" and K = 1 and thr = "Num (1 / 2)"]
  have a: "status (improved_predict small_world small_manager ''none.jpg'' True (Num (1 / 2)) 1)
        = ''error''
      \<and> r_message (improved_predict small_world small_manager ''none.jpg'' True (Num (1 / 2)) 1)
        = Prediction_error"
    by (simp add: Let_def none)
  from improved_predict_status [where use_tta = True and E = small_world and M = small_manager
      and image_path = "''leaf.jpg''" and K = 1 and ty = "''str''" and res = ?res]
  have b: "status (improved_predict small_world small_manager ''leaf.jpg'' True (NonNumeric ''str'') 1)
        = ''error''
      \<and> r_message (improved_predict small_world small_manager ''leaf.jpg'' True
            (NonNumeric ''str'') 1)
        = Processing_error (TypeError_less_than ''str'')"
    by (simp add: Let_def tta_leaf_1)
  from improved_predict_status [where use_tta = True and E = small_world and M = small_manager
      and image_path = "''leaf.jpg''" and K = 1 and t = "4 / 5" and res = ?res]
  have c: "status (improved_predict small_world small_manager ''leaf.jpg'' True (Num (4 / 5)) 1)
        = ''warning''
      \<and> r_class (improved_predict small_world small_manager ''leaf.jpg'' True (Num (4 / 5)) 1)
        = Some ''Healthy''
      \<and> r_confidence (improved_predict small_world small_manager ''leaf.jpg'' True (Num (4 / 5)) 1)
        = 75"
    by (simp add: Let_def tta_leaf_1)
  from improved_predict_status [where use_tta = True and E = small_world and M = small_manager
      and image_path = "''leaf.jpg''" and K = 1 and t = "1 / 2" and res = ?res]
  have d: "status (improved_predict small_world small_manager ''leaf.jpg'' True (Num (1 / 2)) 1)
        = ''success''
      \<and> r_probability (improved_predict small_world small_manager ''leaf.jpg'' True (Num (1 / 2)) 1)
        = 3 / 4"
    by (simp add: Let_def tta_leaf_1)
  from a b c d show ?thesis by blast
qed

text \<open>The claim C2 as stated fails: an exception does not always give the status \<open>error\<close>
  with its text. The top three computation raises on the index 5, which has no label,
  and the status is \<open>success\<close>; the image that does not load makes the prediction fail
  and the message is the fixed one, which holds no text of the exception.\<close>

theorem swallowed_exceptions_counterexample:
  "label_at (classes six_manager) 5 = None
   \<and> get_top_3_predictions small_world six_manager ''leaf.jpg'' = None
   \<and> status (improved_predict small_world six_manager ''leaf.jpg'' False (Num (1 / 2)) 0)
       = ''success''
   \<and> tf_read_decode_resize small_world ''none.jpg'' (img_size small_manager) = None
   \<and> predict_with_tta small_world small_manager ''none.jpg'' 1 = None
   \<and> status (improved_predict small_world small_manager ''none.jpg'' True (Num (1 / 2)) 1)
       = ''error''
   \<and> r_message (improved_predict small_world small_manager ''none.jpg'' True (Num (1 / 2)) 1)
       = Prediction_error"
proof -
  have "label_at (classes six_manager) 5 = None"
    by (simp add: six_manager_def)
  moreover have "predict_with_tta small_world small_manager ''none.jpg'' 1 = None"
    by (simp add: predict_with_tta_def load_nothing)
  ultimately show ?thesis
    by (simp add: improved_predict_def six_leaf Let_def error_result_def small_world_fields
        black_leaf_def)
qed

subsection \<open>The top three\<close>

lemma get_top_3_None:
  "get_top_3_predictions E M image_path = None \<longleftrightarrow>
     load_and_preprocess_image_tf E M image_path = None
     \<or> (\<exists>img. load_and_preprocess_image_tf E M image_path = Some img \<and> model M img = None)
     \<or> (\<exists>img predictions idx.
           load_and_preprocess_image_tf E M image_path = Some img
         \<and> model M img = Some predictions
         \<and> idx \<in> set (drop (length (np_argsort E predictions) - 3) (np_argsort E predictions))
         \<and> label_at (classes M) idx = None)"
  by (auto simp: get_top_3_predictions_def Let_def those_map_None split: option.splits)

text \<open>
  C10. In a result of \<open>improved_predict\<close> with status \<open>success\<close> or \<open>warning\<close> the key \<open>top_3\<close>
  holds whatever \<open>get_top_3_predictions\<close> returned, unchanged, and that is None when the
  image does not load, when the model raises, or when one of the three highest indices
  has no label; the status is not lowered for it.
\<close>

theorem top_3_may_be_None:
  "(status (improved_predict E M image_path use_tta thr K) = ''success''
      \<or> status (improved_predict E M image_path use_tta thr K) = ''warning''
    \<longrightarrow> r_top_3 (improved_predict E M image_path use_tta thr K) =
          Some (get_top_3_predictions E M image_path))
   \<and> (get_top_3_predictions E M image_path = None \<longleftrightarrow>
        load_and_preprocess_image_tf E M image_path = None
        \<or> (\<exists>img. load_and_preprocess_image_tf E M image_path = Some img \<and> model M img = None)
        \<or> (\<exists>img predictions idx.
              load_and_preprocess_image_tf E M image_path = Some img
            \<and> model M img = Some predictions
            \<and> idx \<in> set (drop (length (np_argsort E predictions) - 3) (np_argsort E predictions))
            \<and> label_at (classes M) idx = None))"
proof -
  have "r_top_3 (improved_predict E M image_path use_tta thr K) =
          Some (get_top_3_predictions E M image_path)"
    if "status (improved_predict E M image_path use_tta thr K) = ''success''
      \<or> status (improved_predict E M image_path use_tta thr K) = ''warning''"
    using that
    by (cases thr)
      (auto simp: improved_predict_def error_result_def Let_def split: option.splits if_splits)
  with get_top_3_None show ?thesis by blast
qed

theorem top_3_may_be_None_witness:
  "status (improved_predict small_world six_manager ''leaf.jpg'' False (Num (1 / 2)) 0) = ''success''
   \<and> r_top_3 (improved_predict small_world six_manager ''leaf.jpg'' False (Num (1 / 2)) 0) = Some None
   \<and> r_class (improved_predict small_world six_manager ''leaf.jpg'' False (Num (1 / 2)) 0)
       = Some ''Healthy''
   \<and> label_at (classes six_manager) 5 = None"
proof -
  have s: "status (improved_predict small_world six_manager ''leaf.jpg'' False (Num (1 / 2)) 0) = ''success''"
    and c: "r_class (improved_predict small_world six_manager ''leaf.jpg'' False (Num (1 / 2)) 0)
       = Some ''Healthy''"
    by (simp_all add: improved_predict_def six_leaf Let_def)
  have l: "label_at (classes six_manager) 5 = None"
    by (simp add: six_manager_def)
  from top_3_may_be_None [of small_world six_manager "''leaf.jpg''" False "Num (1 / 2)" 0] s
  have "r_top_3 (improved_predict small_world six_manager ''leaf.jpg'' False (Num (1 / 2)) 0) =
      Some (get_top_3_predictions small_world six_manager ''leaf.jpg'')"
    by blast
  with s c l show ?thesis by (simp add: six_leaf)
qed

subsection \<open>What the model is given\<close>

text \<open>A result of \<open>predict_with_tta\<close> needs the model's answer on the normalised image and
  on each augmentation of the normalised image.\<close>

lemma predict_with_tta_calls:
  assumes "predict_with_tta E M image_path K = Some r"
    and "tf_read_decode_resize E image_path (img_size M) = Some raw"
  shows "model M (preprocess_fn M raw) \<noteq> None"
    and "\<forall>i < nat K. model M (augment E (random_source E i) (preprocess_fn M raw)) \<noteq> None"
    and "\<forall>i < nat K. \<forall>v \<in> entries (augment E (random_source E i) (preprocess_fn M raw)).
           0 \<le> v \<and> v \<le> 255"
proof -
  from assms(2) have img: "load_and_preprocess_image_tf E M image_path = Some (preprocess_fn M raw)"
    by (simp add: load_and_preprocess_image_tf_def)
  from tta_result [OF assms(1)] img obtain preds where
    "model M (preprocess_fn M raw) = Some (preds ! 0)"
    "\<forall>i < nat K. model M (augment E (random_source E i) (preprocess_fn M raw))
        = Some (preds ! (i + 1))"
    by auto
  then show "model M (preprocess_fn M raw) \<noteq> None"
    and "\<forall>i < nat K. model M (augment E (random_source E i) (preprocess_fn M raw)) \<noteq> None"
    by simp_all
  show "\<forall>i < nat K. \<forall>v \<in> entries (augment E (random_source E i) (preprocess_fn M raw)).
           0 \<le> v \<and> v \<le> 255"
    using augment_entries by blast
qed

text \<open>
  C1. The code at the input where it departs from the claim: a manager of an unknown
  family, so that the normalisation is \<open>x / 127.5 - 1\<close>, the image of one black pixel and
  one augmentation. The pixel 0 is normalised to \<open>-1\<close> when the image is loaded; the pass
  augments that tensor, the clip into \<open>[0, 255]\<close> makes it 0, and this is what the model
  is given, with no normalisation after it: a model that raises on \<open>[[[0, 0, 0]]]\<close> and
  nowhere else makes \<open>predict_with_tta\<close> return None with one augmentation and a result
  with none. Augmenting the pixel values and normalising afterwards would give the model
  \<open>[[[-1, -1, -1]]]\<close>, on which its output differs, and the average 1 in place of
  \<open>3 / 4\<close>.
\<close>

theorem tta_clips_the_normalised_image:
  "tf_read_decode_resize small_world ''leaf.jpg'' (img_size small_manager) = Some [[[0, 0, 0]]]
   \<and> load_and_preprocess_image_tf small_world small_manager ''leaf.jpg'' = Some [[[-1, -1, -1]]]
   \<and> augment small_world (random_source small_world 0) [[[-1, -1, -1]]] = [[[0, 0, 0]]]
   \<and> tta_model_inputs small_world [[[-1, -1, -1]]] 1 = [[[[-1, -1, -1]]], [[[0, 0, 0]]]]
   \<and> preprocess_fn small_manager (augment small_world (random_source small_world 0) [[[0, 0, 0]]])
       = [[[-1, -1, -1]]]
   \<and> model small_manager [[[0, 0, 0]]] = Some [1 / 2, 1 / 2]
   \<and> model small_manager [[[-1, -1, -1]]] = Some [1, 0]
   \<and> predict_with_tta small_world small_manager ''leaf.jpg'' 1 =
       Some \<lparr>p_class = ''Healthy'', p_confidence = 75, p_probability = 3 / 4,
             p_probabilities = [(''Healthy'', 3 / 4), (''Rust'', 1 / 4)],
             p_num_augmentations = Some 1\<rparr>
   \<and> mean_axis0 [[1, 0], [1 / 2, 1 / 2]] = Some [3 / 4, 1 / 4]
   \<and> mean_axis0 [[1, 0], [1, 0]] = Some [1, 0]
   \<and> predict_with_tta small_world
         (small_manager\<lparr>model := \<lambda>x. if x = [[[0, 0, 0]]] then None else red_reader x\<rparr>)
         ''leaf.jpg'' 1 = None
   \<and> predict_with_tta small_world
         (small_manager\<lparr>model := \<lambda>x. if x = [[[0, 0, 0]]] then None else red_reader x\<rparr>)
         ''leaf.jpg'' 0 =
       Some \<lparr>p_class = ''Healthy'', p_confidence = 100, p_probability = 1,
             p_probabilities = [(''Healthy'', 1), (''Rust'', 0)],
             p_num_augmentations = Some 0\<rparr>"
proof -
  let ?M = "small_manager\<lparr>model := \<lambda>x. if x = [[[0, 0, 0]]] then None else red_reader x\<rparr>"
  have p: "preprocess_fn ?M = fallback_preprocess"
    "classes ?M = LabelList [''Healthy'', ''Rust'']"
    by (simp_all add: small_manager_fields)
  have zero: "tta_model_inputs small_world [[[-1, -1, -1]]] 0 = [[[[-1, -1, -1]]]]"
    by (simp add: tta_model_inputs_def)
  have probe_1: "predict_with_tta small_world ?M ''leaf.jpg'' 1 = None"
    by (simp add: predict_with_tta_def load_leaf p tta_inputs_leaf red_reader_values)
  have probe_0: "predict_with_tta small_world ?M ''leaf.jpg'' 0 =
       Some \<lparr>p_class = ''Healthy'', p_confidence = 100, p_probability = 1,
             p_probabilities = [(''Healthy'', 1), (''Rust'', 0)],
             p_num_augmentations = Some 0\<rparr>"
    by (simp add: predict_with_tta_def load_leaf p zero red_reader_values mean_axis0_single
        two_labels argmax_two Let_def float32_values)
  have means: "mean_axis0 [[1, 0], [1 / 2, 1 / 2]] = Some [3 / 4, 1 / 4]"
    "mean_axis0 [[1, 0], [1, 0]] = Some [1, 0]"
    by (simp_all add: mean_axis0_def upt_2)
  have rest: "tf_read_decode_resize small_world ''leaf.jpg'' (img_size small_manager)
        = Some [[[0, 0, 0]]]
   \<and> load_and_preprocess_image_tf small_world small_manager ''leaf.jpg'' = Some [[[-1, -1, -1]]]
   \<and> augment small_world (random_source small_world 0) [[[-1, -1, -1]]] = [[[0, 0, 0]]]
   \<and> tta_model_inputs small_world [[[-1, -1, -1]]] 1 = [[[[-1, -1, -1]]], [[[0, 0, 0]]]]
   \<and> preprocess_fn small_manager (augment small_world (random_source small_world 0) [[[0, 0, 0]]])
       = [[[-1, -1, -1]]]
   \<and> model small_manager [[[0, 0, 0]]] = Some [1 / 2, 1 / 2]
   \<and> model small_manager [[[-1, -1, -1]]] = Some [1, 0]"
    by (simp add: small_world_fields black_leaf_def load_leaf small_manager_fields
        tta_inputs_leaf augment_black augment_dark fallback_preprocess_def tensor_map_def
        red_reader_values)
  from rest tta_leaf_1 means probe_1 probe_0 show ?thesis
    by (simp only: simp_thms)
qed

subsection \<open>Sorting\<close>

lemma distinct_map_insort_key:
  "distinct (map g (insort_key f x xs)) \<longleftrightarrow> g x \<notin> g ` set xs \<and> distinct (map g xs)"
  by (induction xs) (auto simp: set_insort_key)

lemma distinct_map_sort_key: "distinct (map g (sort_key f xs)) \<longleftrightarrow> distinct (map g xs)"
  by (induction xs) (simp_all add: distinct_map_insort_key)

text \<open>The insertion sort of the reference runtime meets what NumPy promises, and so does
  the other sort.\<close>

lemma insertion_argsort_meets: "is_argsort xs (insertion_argsort xs)"
proof -
  let ?zs = "zip xs [0..<length xs]"
  let ?ps = "sort_key fst ?zs"
  have len: "length (insertion_argsort xs) = length xs"
    by (simp add: insertion_argsort_def)
  have dist: "distinct (insertion_argsort xs)"
    by (simp add: insertion_argsort_def distinct_map_sort_key map_snd_zip)
  have "set (insertion_argsort xs) = snd ` set ?zs"
    by (simp add: insertion_argsort_def)
  also have "\<dots> = set (map snd ?zs)"
    by (simp only: set_map)
  also have "\<dots> = {0..<length xs}"
    by (subst map_snd_zip) simp_all
  finally have range: "set (insertion_argsort xs) = {0..<length xs}" .
  have "xs ! snd p = fst p" if "p \<in> set ?ps" for p
  proof -
    from that have "p \<in> set ?zs" by simp
    then obtain i where "i < length ?zs" "p = ?zs ! i"
      by (auto simp: in_set_conv_nth)
    then show ?thesis by simp
  qed
  then have "map (\<lambda>i. xs ! i) (insertion_argsort xs) = map fst ?ps"
    by (simp add: insertion_argsort_def)
  then have "sorted (map (\<lambda>i. xs ! i) (insertion_argsort xs))"
    by (simp only: sorted_sort_key)
  with len dist range show ?thesis
    by (simp add: is_argsort_def)
qed

lemma other_argsort_meets: "is_argsort xs (other_argsort xs)"
proof (cases "xs = [1 / 2, 1 / 2, 0, 0, 0]")
  case True
  then have "other_argsort xs = [3, 2, 4, 1, 0]"
    unfolding other_argsort_def by (rule if_P)
  with True tied_sorts(4) show ?thesis
    by (simp only:)
next
  case False
  then have "other_argsort xs = insertion_argsort xs"
    unfolding other_argsort_def by (rule if_not_P)
  with insertion_argsort_meets [of xs] show ?thesis
    by (simp only:)
qed

text \<open>The indices \<open>np.argsort(predictions)[-3:][::-1]\<close>, for any sort that meets the
  promise.\<close>

lemma top_3_idx:
  assumes "is_argsort xs a"
  defines "idxs \<equiv> rev (drop (length a - 3) a)"
  shows "length idxs = min 3 (length xs)"
    and "distinct idxs"
    and "set idxs \<subseteq> {0..<length xs}"
    and "sorted_wrt (\<lambda>i j. xs ! j \<le> xs ! i) idxs"
    and "\<forall>k < length xs. k \<notin> set idxs \<longrightarrow> (\<forall>i \<in> set idxs. xs ! k \<le> xs ! i)"
proof -
  from assms(1) have len: "length a = length xs" and dist: "distinct a"
    and range: "set a = {0..<length xs}" and sorted: "sorted (map (\<lambda>i. xs ! i) a)"
    by (simp_all add: is_argsort_def)
  show "length idxs = min 3 (length xs)"
    using len by (simp add: idxs_def)
  show "distinct idxs"
    using dist by (simp add: idxs_def)
  show "set idxs \<subseteq> {0..<length xs}"
    using range set_drop_subset [of "length a - 3" a] by (simp add: idxs_def)
  from sorted have asc: "sorted_wrt (\<lambda>i j. xs ! i \<le> xs ! j) a"
    by (simp add: sorted_map)
  then have "sorted_wrt (\<lambda>i j. xs ! i \<le> xs ! j) (drop (length a - 3) a)"
    by (rule sorted_wrt_drop)
  then show "sorted_wrt (\<lambda>i j. xs ! j \<le> xs ! i) idxs"
    by (simp add: idxs_def sorted_wrt_rev)
  from asc have "sorted_wrt (\<lambda>i j. xs ! i \<le> xs ! j)
      (take (length a - 3) a @ drop (length a - 3) a)"
    by simp
  then have below: "\<forall>k \<in> set (take (length a - 3) a). \<forall>i \<in> set (drop (length a - 3) a).
      xs ! k \<le> xs ! i"
    by (simp only: sorted_wrt_append) blast
  show "\<forall>k < length xs. k \<notin> set idxs \<longrightarrow> (\<forall>i \<in> set idxs. xs ! k \<le> xs ! i)"
  proof (intro allI impI ballI)
    fix k i
    assume k: "k < length xs" "k \<notin> set idxs" and i: "i \<in> set idxs"
    from k(1) range have "k \<in> set (take (length a - 3) a @ drop (length a - 3) a)"
      by simp
    with k(2) have "k \<in> set (take (length a - 3) a)"
      by (simp add: idxs_def del: append_take_drop_id)
    with below i show "xs ! k \<le> xs ! i"
      by (simp add: idxs_def)
  qed
qed

subsection \<open>The dictionary of probabilities\<close>

lemma update_new_key:
  assumes "k \<notin> fst ` set d"
  shows "AList.update k v d = d @ [(k, v)]"
  using assms by (induction d) auto

lemma dict_of_distinct_aux:
  assumes "distinct (map fst (d @ items))"
  shows "foldl (\<lambda>d (k, v). AList.update k v d) d items = d @ items"
  using assms
proof (induction items arbitrary: d)
  case Nil
  then show ?case by simp
next
  case (Cons kv items)
  obtain k v where kv: "kv = (k, v)" by (cases kv)
  from Cons.prems kv have new: "k \<notin> fst ` set d" by auto
  from Cons.prems kv have "distinct (map fst ((d @ [(k, v)]) @ items))" by simp
  from Cons.IH [OF this] show ?case
    by (simp add: kv update_new_key [OF new])
qed

lemma dict_of_distinct:
  assumes "distinct (map fst items)"
  shows "dict_of items = items"
  using dict_of_distinct_aux [of "[]" items] assms by (simp add: dict_of_def)

lemma probabilities_of_distinct:
  assumes "probabilities_of cls predictions = Some probs"
    and "\<forall>i j. i < j \<and> j < num_labels cls \<longrightarrow> label_at cls i \<noteq> label_at cls j"
    and "label_at cls i = Some c"
  shows "i < length predictions \<and> map_of probs c = Some (predictions ! i)"
proof -
  let ?f = "\<lambda>i. case label_at cls i of
                  None \<Rightarrow> None
                | Some c \<Rightarrow> if i < length predictions then Some (c, predictions ! i) else None"
  from assms(1) obtain items where items: "those (map ?f [0..<num_labels cls]) = Some items"
    and probs: "probs = dict_of (sorted_desc (dict_of items))"
    by (auto simp: probabilities_of_def)
  from those_map_Some [OF items] have len: "length items = num_labels cls"
    and each: "\<forall>j < num_labels cls. ?f j = Some (items ! j)"
    by (simp_all cong: option.case_cong if_cong)
  have i: "i < num_labels cls"
    using assms(3) by (cases cls) (auto split: if_splits)
  have key: "label_at cls j = Some (fst (items ! j))" if "j < num_labels cls" for j
  proof -
    from each that have "?f j = Some (items ! j)" by blast
    then show ?thesis
      by (cases "label_at cls j") (auto split: if_splits dest: arg_cong [where f = fst])
  qed
  have ne: "fst (items ! a) \<noteq> fst (items ! b)" if "a < b" "b < length items" for a b
  proof -
    from that len have "label_at cls a \<noteq> label_at cls b" using assms(2) by simp
    with that len show ?thesis using key [of a] key [of b] by auto
  qed
  have d: "distinct (map fst items)"
    unfolding distinct_conv_nth
  proof (intro allI impI)
    fix a b
    assume a: "a < length (map fst items)" and b: "b < length (map fst items)" and "a \<noteq> b"
    then consider "a < b" | "b < a" by linarith
    then show "map fst items ! a \<noteq> map fst items ! b"
    proof cases
      case 1
      with ne [of a b] a b show ?thesis by simp
    next
      case 2
      with ne [of b a] a b show ?thesis by (simp add: eq_commute)
    qed
  qed
  then have d': "distinct (map fst (sorted_desc items))"
    by (simp add: sorted_desc_def distinct_map_sort_key)
  have probs': "probs = sorted_desc items"
    by (simp add: probs dict_of_distinct d d')
  from each i assms(3) have item: "i < length predictions" "items ! i = (c, predictions ! i)"
    by (auto split: if_splits)
  with i len have "(c, predictions ! i) \<in> set probs"
    by (auto simp: probs' sorted_desc_def in_set_conv_nth)
  with d' item(1) show ?thesis
    by (simp add: probs')
qed

subsection \<open>The entries of the top three\<close>

lemma get_top_3_Some:
  assumes "get_top_3_predictions E M image_path = Some tops"
  shows "\<exists>img predictions.
      load_and_preprocess_image_tf E M image_path = Some img
    \<and> model M img = Some predictions
    \<and> length tops
        = length (rev (drop (length (np_argsort E predictions) - 3) (np_argsort E predictions)))
    \<and> (\<forall>k < length tops.
          label_at (classes M)
            (rev (drop (length (np_argsort E predictions) - 3) (np_argsort E predictions)) ! k)
            = Some (t_class (tops ! k))
        \<and> t_probability (tops ! k) =
            predictions
              ! (rev (drop (length (np_argsort E predictions) - 3) (np_argsort E predictions)) ! k)
        \<and> t_confidence (tops ! k) =
            float32 (predictions
              ! (rev (drop (length (np_argsort E predictions) - 3) (np_argsort E predictions)) ! k)
              * 100))"
proof -
  from assms obtain img predictions where
    img: "load_and_preprocess_image_tf E M image_path = Some img"
    and predictions: "model M img = Some predictions"
    and tops: "those (map (\<lambda>idx. case label_at (classes M) idx of
                                   None \<Rightarrow> None
                                 | Some c \<Rightarrow>
                                     Some \<lparr>t_class = c,
                                           t_confidence = float32 (predictions ! idx * 100),
                                           t_probability = predictions ! idx\<rparr>)
              (rev (drop (length (np_argsort E predictions) - 3) (np_argsort E predictions))))
        = Some tops"
    by (auto simp: get_top_3_predictions_def Let_def split: option.splits)
  let ?idxs = "rev (drop (length (np_argsort E predictions) - 3) (np_argsort E predictions))"
  from those_map_Some [OF tops] have len: "length tops = length ?idxs"
    and each: "\<forall>k < length ?idxs.
        (case label_at (classes M) (?idxs ! k) of
           None \<Rightarrow> None
         | Some c \<Rightarrow>
            Some \<lparr>t_class = c, t_confidence = float32 (predictions ! (?idxs ! k) * 100),
                  t_probability = predictions ! (?idxs ! k)\<rparr>) = Some (tops ! k)"
    by blast+
  have "label_at (classes M) (?idxs ! k) = Some (t_class (tops ! k))
        \<and> t_probability (tops ! k) = predictions ! (?idxs ! k)
        \<and> t_confidence (tops ! k) = float32 (predictions ! (?idxs ! k) * 100)"
    if "k < length tops" for k
  proof -
    from that len each have eq: "(case label_at (classes M) (?idxs ! k) of
           None \<Rightarrow> None
         | Some c \<Rightarrow>
            Some \<lparr>t_class = c, t_confidence = float32 (predictions ! (?idxs ! k) * 100),
                  t_probability = predictions ! (?idxs ! k)\<rparr>) = Some (tops ! k)"
      by simp
    show ?thesis
    proof (cases "label_at (classes M) (?idxs ! k)")
      case None
      with eq show ?thesis by simp
    next
      case (Some c)
      with eq have "tops ! k = \<lparr>t_class = c,
                  t_confidence = float32 (predictions ! (?idxs ! k) * 100),
                  t_probability = predictions ! (?idxs ! k)\<rparr>"
        by simp
      with Some show ?thesis by simp
    qed
  qed
  with img predictions len show ?thesis by blast
qed

text \<open>With a label for every output of the model, the list is returned.\<close>

lemma get_top_3_returns:
  assumes "is_argsort predictions (np_argsort E predictions)"
    and "load_and_preprocess_image_tf E M image_path = Some img"
    and "model M img = Some predictions"
    and "\<forall>i < length predictions. label_at (classes M) i \<noteq> None"
  shows "\<exists>tops. get_top_3_predictions E M image_path = Some tops"
proof (rule ccontr)
  assume "\<not> ?thesis"
  then have "get_top_3_predictions E M image_path = None" by simp
  with assms(2,3) obtain idx where
    idx: "idx \<in> set (drop (length (np_argsort E predictions) - 3) (np_argsort E predictions))"
    and none: "label_at (classes M) idx = None"
    by (auto simp: get_top_3_None)
  from idx have "idx \<in> set (np_argsort E predictions)"
    by (rule in_set_dropD)
  with assms(1) have "idx < length predictions"
    by (simp add: is_argsort_def)
  with assms(4) none show False by blast
qed

text \<open>
  C3, as the code has it, for any \<open>np.argsort\<close> that returns the indices in ascending order
  of value. If the image loads, the model answers and every output of the model has a
  label, \<open>get_top_3_predictions\<close> returns a list. When it returns a list, it has three
  entries, or as many as the model has outputs if those are fewer. The entries are those
  of distinct indices of the model's output on the image without augmentation; each holds
  the label of its index, the output there as probability and the single precision
  product of it and 100 as confidence. They are in descending order of probability, and
  no index left out has a higher output than an index listed; among equal outputs no
  order is fixed. Attached to a direct prediction whose labels are distinct, each
  entry's probability is the entry of its class in the probabilities of that result.
\<close>

theorem top_3_entries:
  assumes argsort: "\<forall>xs. is_argsort xs (np_argsort E xs)"
  shows "(\<forall>img predictions.
            load_and_preprocess_image_tf E M image_path = Some img
          \<and> model M img = Some predictions
          \<and> (\<forall>i < length predictions. label_at (classes M) i \<noteq> None)
          \<longrightarrow> (\<exists>tops. get_top_3_predictions E M image_path = Some tops))
    \<and> (\<forall>tops. get_top_3_predictions E M image_path = Some tops \<longrightarrow>
         (\<exists>img predictions idxs.
            load_and_preprocess_image_tf E M image_path = Some img
          \<and> model M img = Some predictions
          \<and> length tops = min 3 (length predictions)
          \<and> length idxs = length tops
          \<and> distinct idxs
          \<and> set idxs \<subseteq> {0..<length predictions}
          \<and> (\<forall>k < length tops.
                label_at (classes M) (idxs ! k) = Some (t_class (tops ! k))
              \<and> t_probability (tops ! k) = predictions ! (idxs ! k)
              \<and> t_confidence (tops ! k) = float32 (predictions ! (idxs ! k) * 100))
          \<and> sorted_wrt (\<lambda>a b. t_probability b \<le> t_probability a) tops
          \<and> (\<forall>k < length predictions. k \<notin> set idxs \<longrightarrow>
                (\<forall>i \<in> set idxs. predictions ! k \<le> predictions ! i))
          \<and> (\<forall>t r. (\<forall>i j. i < j \<and> j < num_labels (classes M) \<longrightarrow>
                          label_at (classes M) i \<noteq> label_at (classes M) j)
                   \<and> predict_single_direct E M image_path = Some r \<longrightarrow>
                r_top_3 (improved_predict E M image_path False (Num t) K) = Some (Some tops)
              \<and> r_probabilities (improved_predict E M image_path False (Num t) K)
                  = Some (p_probabilities r)
              \<and> (\<forall>e \<in> set tops.
                    map_of (p_probabilities r) (t_class e) = Some (t_probability e)))))"
proof (intro conjI allI impI)
  fix img predictions
  assume "load_and_preprocess_image_tf E M image_path = Some img
          \<and> model M img = Some predictions
          \<and> (\<forall>i < length predictions. label_at (classes M) i \<noteq> None)"
  with argsort show "\<exists>tops. get_top_3_predictions E M image_path = Some tops"
    using get_top_3_returns [of predictions E M image_path img] by blast
next
  fix tops
  assume tops: "get_top_3_predictions E M image_path = Some tops"
  from get_top_3_Some [OF tops] obtain img predictions where
    img: "load_and_preprocess_image_tf E M image_path = Some img"
    and predictions: "model M img = Some predictions"
    and len: "length tops
        = length (rev (drop (length (np_argsort E predictions) - 3) (np_argsort E predictions)))"
    and each: "\<forall>k < length tops.
          label_at (classes M)
            (rev (drop (length (np_argsort E predictions) - 3) (np_argsort E predictions)) ! k)
            = Some (t_class (tops ! k))
        \<and> t_probability (tops ! k) =
            predictions
              ! (rev (drop (length (np_argsort E predictions) - 3) (np_argsort E predictions)) ! k)
        \<and> t_confidence (tops ! k) =
            float32 (predictions
              ! (rev (drop (length (np_argsort E predictions) - 3) (np_argsort E predictions)) ! k)
              * 100)"
    by blast
  define idxs where
    "idxs = rev (drop (length (np_argsort E predictions) - 3) (np_argsort E predictions))"
  from argsort have "is_argsort predictions (np_argsort E predictions)" by blast
  note idx = top_3_idx [OF this, folded idxs_def]
  from len have len': "length idxs = length tops"
    by (simp add: idxs_def)
  with idx(1) have three: "length tops = min 3 (length predictions)"
    by simp
  from each have each': "\<forall>k < length tops.
          label_at (classes M) (idxs ! k) = Some (t_class (tops ! k))
        \<and> t_probability (tops ! k) = predictions ! (idxs ! k)
        \<and> t_confidence (tops ! k) = float32 (predictions ! (idxs ! k) * 100)"
    by (simp add: idxs_def)
  have desc: "sorted_wrt (\<lambda>a b. t_probability b \<le> t_probability a) tops"
    unfolding sorted_wrt_iff_nth_less
  proof (intro allI impI)
    fix a b assume ab: "a < b" "b < length tops"
    with idx(4) len' have "predictions ! (idxs ! b) \<le> predictions ! (idxs ! a)"
      by (simp add: sorted_wrt_iff_nth_less)
    with ab each' show "t_probability (tops ! b) \<le> t_probability (tops ! a)"
      by auto
  qed
  have direct: "r_top_3 (improved_predict E M image_path False (Num t) K) = Some (Some tops)
        \<and> r_probabilities (improved_predict E M image_path False (Num t) K)
            = Some (p_probabilities r)
        \<and> (\<forall>e \<in> set tops. map_of (p_probabilities r) (t_class e) = Some (t_probability e))"
    if labels: "\<forall>i j. i < j \<and> j < num_labels (classes M) \<longrightarrow>
                    label_at (classes M) i \<noteq> label_at (classes M) j"
      and r: "predict_single_direct E M image_path = Some r" for t r
  proof -
    from r img predictions have probs:
      "probabilities_of (classes M) predictions = Some (p_probabilities r)"
      by (auto simp: predict_single_direct_def Let_def split: option.splits)
    have "map_of (p_probabilities r) (t_class e) = Some (t_probability e)" if "e \<in> set tops" for e
    proof -
      from that obtain k where k: "k < length tops" "e = tops ! k"
        by (auto simp: in_set_conv_nth)
      with each' have "label_at (classes M) (idxs ! k) = Some (t_class e)"
        and "t_probability e = predictions ! (idxs ! k)"
        by simp_all
      with probabilities_of_distinct [OF probs labels] show ?thesis
        by simp
    qed
    with r tops show ?thesis
      by (simp add: improved_predict_def Let_def)
  qed
  from img predictions three len' idx(2) idx(3) each' desc idx(5) direct
  show "\<exists>img predictions idxs.
            load_and_preprocess_image_tf E M image_path = Some img
          \<and> model M img = Some predictions
          \<and> length tops = min 3 (length predictions)
          \<and> length idxs = length tops
          \<and> distinct idxs
          \<and> set idxs \<subseteq> {0..<length predictions}
          \<and> (\<forall>k < length tops.
                label_at (classes M) (idxs ! k) = Some (t_class (tops ! k))
              \<and> t_probability (tops ! k) = predictions ! (idxs ! k)
              \<and> t_confidence (tops ! k) = float32 (predictions ! (idxs ! k) * 100))
          \<and> sorted_wrt (\<lambda>a b. t_probability b \<le> t_probability a) tops
          \<and> (\<forall>k < length predictions. k \<notin> set idxs \<longrightarrow>
                (\<forall>i \<in> set idxs. predictions ! k \<le> predictions ! i))
          \<and> (\<forall>t r. (\<forall>i j. i < j \<and> j < num_labels (classes M) \<longrightarrow>
                          label_at (classes M) i \<noteq> label_at (classes M) j)
                   \<and> predict_single_direct E M image_path = Some r \<longrightarrow>
                r_top_3 (improved_predict E M image_path False (Num t) K) = Some (Some tops)
              \<and> r_probabilities (improved_predict E M image_path False (Num t) K)
                  = Some (p_probabilities r)
              \<and> (\<forall>e \<in> set tops.
                    map_of (p_probabilities r) (t_class e) = Some (t_probability e)))"
    by blast
qed

theorem top_3_entries_witness:
  "(\<forall>xs. is_argsort xs (np_argsort small_world xs))
   \<and> get_top_3_predictions small_world small_manager ''leaf.jpg'' =
     Some [\<lparr>t_class = ''Healthy'', t_confidence = 100, t_probability = 1\<rparr>,
           \<lparr>t_class = ''Rust'', t_confidence = 0, t_probability = 0\<rparr>]
   \<and> model small_manager [[[-1, -1, -1]]] = Some [1, 0]
   \<and> r_probabilities (improved_predict small_world small_manager ''leaf.jpg'' False (Num (1 / 2)) 0)
       = Some [(''Healthy'', 1), (''Rust'', 0)]
   \<and> r_top_3 (improved_predict small_world small_manager ''leaf.jpg'' False (Num (1 / 2)) 0)
       = Some (Some [\<lparr>t_class = ''Healthy'', t_confidence = 100, t_probability = 1\<rparr>,
                     \<lparr>t_class = ''Rust'', t_confidence = 0, t_probability = 0\<rparr>])
   \<and> sorted_wrt (\<lambda>a b. t_probability b \<le> t_probability a)
        [\<lparr>t_class = ''Healthy'', t_confidence = 100, t_probability = 1\<rparr>,
         \<lparr>t_class = ''Rust'', t_confidence = 0, t_probability = 0\<rparr>]"
proof -
  let ?tops = "[\<lparr>t_class = ''Healthy'', t_confidence = 100, t_probability = 1\<rparr>,
           \<lparr>t_class = ''Rust'', t_confidence = 0, t_probability = 0\<rparr>]"
  let ?r = "\<lparr>p_class = ''Healthy'', p_confidence = 100, p_probability = 1,
           p_probabilities = [(''Healthy'', 1), (''Rust'', 0)],
           p_num_augmentations = None\<rparr>"
  have meets: "\<forall>xs. is_argsort xs (np_argsort small_world xs)"
    by (simp add: small_world_fields insertion_argsort_meets)
  have labels: "\<forall>i j. i < j \<and> j < num_labels (classes small_manager) \<longrightarrow>
      label_at (classes small_manager) i \<noteq> label_at (classes small_manager) j"
    by (auto simp: small_manager_fields less_Suc_eq numeral_2_eq_2)
  note inst = top_3_entries [OF meets, of small_manager "''leaf.jpg''" 0]
  from inst [THEN conjunct2, rule_format, OF top_3_leaf] obtain img predictions idxs where
    "load_and_preprocess_image_tf small_world small_manager ''leaf.jpg'' = Some img"
    and "model small_manager img = Some predictions"
    and s: "sorted_wrt (\<lambda>a b. t_probability b \<le> t_probability a) ?tops"
    and d: "\<forall>t r. (\<forall>i j. i < j \<and> j < num_labels (classes small_manager) \<longrightarrow>
                    label_at (classes small_manager) i \<noteq> label_at (classes small_manager) j)
             \<and> predict_single_direct small_world small_manager ''leaf.jpg'' = Some r \<longrightarrow>
          r_top_3 (improved_predict small_world small_manager ''leaf.jpg'' False (Num t) 0)
            = Some (Some ?tops)
        \<and> r_probabilities (improved_predict small_world small_manager ''leaf.jpg'' False (Num t) 0)
            = Some (p_probabilities r)
        \<and> (\<forall>e \<in> set ?tops. map_of (p_probabilities r) (t_class e) = Some (t_probability e))"
    by blast
  from d labels direct_leaf have
    "r_top_3 (improved_predict small_world small_manager ''leaf.jpg'' False (Num (1 / 2)) 0)
       = Some (Some ?tops)"
    "r_probabilities (improved_predict small_world small_manager ''leaf.jpg'' False (Num (1 / 2)) 0)
       = Some (p_probabilities ?r)"
    by blast+
  with s meets show ?thesis
    by (simp add: top_3_leaf small_manager_fields red_reader_values)
qed

text \<open>The claim C3 as stated fails twice. The model's output \<open>[1/2, 1/2, 0, 0, 0]\<close> has
  equal values at indices 0 and 1 and at indices 2, 3 and 4, and the order of the entries
  among them is that of the sort: with the indices sorted as \<open>[3, 2, 4, 1, 0]\<close>, which is
  in ascending order of value, the third entry is index 4 (Yellow) and not index 2
  (RedRot); with the insertion sort the list starts with index 1 (Mosaic) before index 0
  (Healthy). And with test time augmentation the probabilities hold the averaged value
  \<open>3/4\<close> for Healthy while the entry of the list holds 1.\<close>

theorem top_3_ties_and_tta_counterexample:
  "model tied_manager [[[-1, -1, -1]]] = Some [1 / 2, 1 / 2, 0, 0, 0]
   \<and> classes tied_manager = LabelList [''Healthy'', ''Mosaic'', ''RedRot'', ''Rust'', ''Yellow'']
   \<and> np_argsort other_world [1 / 2, 1 / 2, 0, 0, 0] = [3, 2, 4, 1, 0]
   \<and> is_argsort [1 / 2, 1 / 2, 0, 0, 0] (np_argsort other_world [1 / 2, 1 / 2, 0, 0, 0])
   \<and> get_top_3_predictions other_world tied_manager ''leaf.jpg'' =
       Some [\<lparr>t_class = ''Healthy'', t_confidence = 50, t_probability = 1 / 2\<rparr>,
             \<lparr>t_class = ''Mosaic'', t_confidence = 50, t_probability = 1 / 2\<rparr>,
             \<lparr>t_class = ''Yellow'', t_confidence = 0, t_probability = 0\<rparr>]
   \<and> np_argsort small_world [1 / 2, 1 / 2, 0, 0, 0] = [2, 3, 4, 0, 1]
   \<and> is_argsort [1 / 2, 1 / 2, 0, 0, 0] (np_argsort small_world [1 / 2, 1 / 2, 0, 0, 0])
   \<and> get_top_3_predictions small_world tied_manager ''leaf.jpg'' =
       Some [\<lparr>t_class = ''Mosaic'', t_confidence = 50, t_probability = 1 / 2\<rparr>,
             \<lparr>t_class = ''Healthy'', t_confidence = 50, t_probability = 1 / 2\<rparr>,
             \<lparr>t_class = ''Yellow'', t_confidence = 0, t_probability = 0\<rparr>]
   \<and> status (improved_predict small_world small_manager ''leaf.jpg'' True (Num (1 / 2)) 1)
       = ''success''
   \<and> r_probabilities (improved_predict small_world small_manager ''leaf.jpg'' True (Num (1 / 2)) 1)
       = Some [(''Healthy'', 3 / 4), (''Rust'', 1 / 4)]
   \<and> r_top_3 (improved_predict small_world small_manager ''leaf.jpg'' True (Num (1 / 2)) 1)
       = Some (Some [\<lparr>t_class = ''Healthy'', t_confidence = 100, t_probability = 1\<rparr>,
                     \<lparr>t_class = ''Rust'', t_confidence = 0, t_probability = 0\<rparr>])"
proof -
  have m: "model tied_manager [[[-1, -1, -1]]] = Some [1 / 2, 1 / 2, 0, 0, 0]"
    "classes tied_manager = LabelList [''Healthy'', ''Mosaic'', ''RedRot'', ''Rust'', ''Yellow'']"
    by (simp_all add: tied_manager_def tied_model_def)
  have s: "np_argsort other_world [1 / 2, 1 / 2, 0, 0, 0] = [3, 2, 4, 1, 0]"
    "np_argsort small_world [1 / 2, 1 / 2, 0, 0, 0] = [2, 3, 4, 0, 1]"
    by (simp_all only: other_world_fields small_world_fields tied_sorts)
  have a: "is_argsort [1 / 2, 1 / 2, 0, 0, 0] (np_argsort other_world [1 / 2, 1 / 2, 0, 0, 0])"
    "is_argsort [1 / 2, 1 / 2, 0, 0, 0] (np_argsort small_world [1 / 2, 1 / 2, 0, 0, 0])"
    by (simp_all only: s tied_sorts)
  have t: "status (improved_predict small_world small_manager ''leaf.jpg'' True (Num (1 / 2)) 1)
       = ''success''
   \<and> r_probabilities (improved_predict small_world small_manager ''leaf.jpg'' True (Num (1 / 2)) 1)
       = Some [(''Healthy'', 3 / 4), (''Rust'', 1 / 4)]
   \<and> r_top_3 (improved_predict small_world small_manager ''leaf.jpg'' True (Num (1 / 2)) 1)
       = Some (Some [\<lparr>t_class = ''Healthy'', t_confidence = 100, t_probability = 1\<rparr>,
                     \<lparr>t_class = ''Rust'', t_confidence = 0, t_probability = 0\<rparr>])"
    by (simp add: improved_predict_def tta_leaf_1 top_3_leaf Let_def)
  from m s a top_3_tied t show ?thesis
    by (simp only: simp_thms)
qed

end
